theory Spec2Isabelle
  imports Main
begin

section \<open>JSON values and schema nodes\<close>

text \<open>
  The JSON Schema to AST core of \<^verbatim>\<open>src/json-schema\<close>: the normalizer's rule pipeline
  and the AST builder (\<^verbatim>\<open>parse\<close> and its helpers) with its build cache.

  A schema object is a JavaScript object with identity. Schema objects live in a store
  (\<open>schema list\<close>); the address of an object is its index. A position where a schema is
  expected holds either such an address or a primitive (a boolean schema, or a bare JSON
  value). JSON numbers are modelled as integers.
\<close>

datatype json =
  JNull | JBool bool | JNum int | JStr string | JArr "json list" | JObj "(string \<times> json) list"

datatype child = Ref nat | Prim json

datatype type_field = TName string | TNames "string list"

datatype enum_field = EArray "json list" | EObject "(string \<times> json) list"

datatype required_field = RBool bool | RList "string list"

datatype items_field = ISingle child | IArray "child list"

datatype extends_field = XNull | XSingle child | XArray "child list"

text \<open>
  One optional field per keyword the code consults; \<open>None\<close> is an absent key
  (\<^verbatim>\<open>undefined\<close>). \<open>legacy_id\<close>, \<open>dollar_id\<close> and \<open>dollar_defs\<close> are the keys
  \<^verbatim>\<open>id\<close>, \<^verbatim>\<open>$id\<close> and \<^verbatim>\<open>$defs\<close>.
\<close>

record schema =
  type :: "type_field option"
  enum :: "enum_field option"
  const :: "json option"
  required :: "required_field option"
  properties :: "(string \<times> child) list option"
  patternProperties :: "(string \<times> child) list option"
  additionalProperties :: "child option"
  dollar_defs :: "(string \<times> child) list option"
  legacy_id :: "string option"
  dollar_id :: "string option"
  title :: "string option"
  description :: "string option"
  deprecated :: "bool option"
  minItems :: "int option"
  maxItems :: "int option"
  items :: "items_field option"
  additionalItems :: "child option"
  extends :: "extends_field option"
  allOf :: "child list option"
  anyOf :: "child list option"
  oneOf :: "child list option"
  tsType :: "string option"
  tsEnumNames :: "string list option"

definition empty_schema :: schema where
  "empty_schema = \<lparr> type = None, enum = None, const = None, required = None,
     properties = None, patternProperties = None, additionalProperties = None,
     dollar_defs = None, legacy_id = None, dollar_id = None, title = None,
     description = None, deprecated = None, minItems = None, maxItems = None,
     items = None, additionalItems = None, extends = None, allOf = None, anyOf = None,
     oneOf = None, tsType = None, tsEnumNames = None \<rparr>"

datatype error = ReferenceError string | TypeError string | RangeError string | Error string

subsection \<open>JavaScript primitives the code relies on\<close>

fun truthy_json :: "json \<Rightarrow> bool" where
  "truthy_json JNull = False"
| "truthy_json (JBool b) = b"
| "truthy_json (JNum n) = (n \<noteq> 0)"
| "truthy_json (JStr s) = (s \<noteq> [])"
| "truthy_json (JArr _) = True"
| "truthy_json (JObj _) = True"

fun truthy_child :: "child \<Rightarrow> bool" where
  "truthy_child (Ref _) = True"
| "truthy_child (Prim j) = truthy_json j"

text \<open>Truthiness of an optional string: absent and the empty string are falsy.\<close>

fun truthy_str :: "string option \<Rightarrow> bool" where
  "truthy_str None = False"
| "truthy_str (Some s) = (s \<noteq> [])"

text \<open>\<^verbatim>\<open>a || b\<close> on optional strings.\<close>

definition or_str :: "string option \<Rightarrow> string option \<Rightarrow> string option" where
  "or_str a b = (if truthy_str a then a else b)"

text \<open>Decimal rendering of an integer, as a template literal prints a number.\<close>

definition digit_char :: "nat \<Rightarrow> char" where
  "digit_char d = ''0123456789'' ! d"

function string_of_nat :: "nat \<Rightarrow> string" where
  "string_of_nat n =
     (if n < 10 then [digit_char n] else string_of_nat (n div 10) @ [digit_char (n mod 10)])"
  by pat_completeness auto
termination
  by (relation "measure (\<lambda>n. n)") auto

declare string_of_nat.simps [simp del]

definition string_of_int :: "int \<Rightarrow> string" where
  "string_of_int i = (if i < 0 then CHR ''-'' # string_of_nat (nat (- i)) else string_of_nat (nat i))"

text \<open>\<^verbatim>\<open>Array(n).fill(x)\<close>: a negative length (or one past \<open>2^32 - 1\<close>) raises.\<close>

definition array_fill :: "int \<Rightarrow> 'a \<Rightarrow> error + 'a list" where
  "array_fill n x =
     (if 0 \<le> n \<and> n < 4294967296 then Inr (replicate (nat n) x)
      else Inl (RangeError ''Invalid array length''))"

text \<open>\<^verbatim>\<open>xs.slice(0, n)\<close> for \<open>0 \<le> n\<close>.\<close>

definition slice0 :: "'a list \<Rightarrow> int \<Rightarrow> 'a list" where
  "slice0 xs n = take (nat n) xs"

section \<open>Helpers of \<^verbatim>\<open>utils\<close> taken as parameters\<close>

text \<open>
  The repository's \<^verbatim>\<open>utils\<close> and \<^verbatim>\<open>types-of\<close> modules are not part of the sources
  at hand. The functions of theirs that the normalizer and the parser call are parameters
  of the model, collected in one record. \<^verbatim>\<open>generateName\<close> reads and extends the set of
  used names; \<^verbatim>\<open>maybeStripNameHints\<close> and \<^verbatim>\<open>maybeStripDefault\<close> receive a schema
  object and return one, and may rewrite the store on the way.
\<close>

datatype schema_type =
  ALL_OF | ANY | ANY_OF | BOOLEAN | CUSTOM_TYPE | NAMED_ENUM | NAMED_SCHEMA | NEVER | NULL
| NUMBER | OBJECT | ONE_OF | REFERENCE | STRING | TYPED_ARRAY | UNION | UNNAMED_ENUM
| UNNAMED_SCHEMA | UNTYPED_ARRAY

record env =
  isSchemaLike :: "schema \<Rightarrow> bool"
  escapeBlockComment :: "schema \<Rightarrow> schema"
  appendToDescription :: "string option \<Rightarrow> string list \<Rightarrow> string"
  typesOfSchema :: "schema \<Rightarrow> schema_type list"
  getRootSchema :: "schema list \<Rightarrow> nat \<Rightarrow> nat"
  generateName :: "string \<Rightarrow> string list \<Rightarrow> string \<times> string list"
  maybeStripNameHints :: "schema list \<Rightarrow> nat \<Rightarrow> nat \<times> schema list"
  maybeStripDefault :: "schema list \<Rightarrow> nat \<Rightarrow> nat \<times> schema list"

section \<open>The normalizer\<close>

definition hasType :: "schema \<Rightarrow> string \<Rightarrow> bool" where
  "hasType s t = (case type s of
       Some (TName u) \<Rightarrow> u = t
     | Some (TNames us) \<Rightarrow> t \<in> set us
     | None \<Rightarrow> False)"

definition isObjectType :: "schema \<Rightarrow> bool" where
  "isObjectType s = (properties s \<noteq> None \<or> hasType s ''object'' \<or> hasType s ''any'')"

definition isArrayType :: "schema \<Rightarrow> bool" where
  "isArrayType s = (items s \<noteq> None \<or> hasType s ''array'' \<or> hasType s ''any'')"

text \<open>Rule 1: Remove \<^verbatim>\<open>type=["null"]\<close> if \<^verbatim>\<open>enum=[null]\<close>.\<close>

definition rule_remove_null_type :: "schema \<Rightarrow> schema" where
  "rule_remove_null_type s = (case (enum s, type s) of
       (Some (EArray vs), Some (TNames ts)) \<Rightarrow>
         if JNull \<in> set vs \<and> ''null'' \<in> set ts
         then s\<lparr>type := Some (TNames (filter (\<lambda>t. t \<noteq> ''null'') ts))\<rparr> else s
     | _ \<Rightarrow> s)"

text \<open>Rule 2: Destructure unary types.\<close>

definition rule_destructure_unary_types :: "schema \<Rightarrow> schema" where
  "rule_destructure_unary_types s = (case type s of
       Some (TNames [t]) \<Rightarrow> s\<lparr>type := Some (TName t)\<rparr>
     | _ \<Rightarrow> s)"

text \<open>Rule 3: Add empty \<^verbatim>\<open>required\<close> property if none is defined.\<close>

definition rule_add_empty_required :: "schema \<Rightarrow> schema" where
  "rule_add_empty_required s =
     (if isObjectType s \<and> required s = None then s\<lparr>required := Some (RList [])\<rparr> else s)"

text \<open>Rule 4: Transform \<^verbatim>\<open>required=false\<close> to \<^verbatim>\<open>required=[]\<close>.\<close>

definition rule_required_false :: "schema \<Rightarrow> schema" where
  "rule_required_false s =
     (if required s = Some (RBool False) then s\<lparr>required := Some (RList [])\<rparr> else s)"

text \<open>Rule 5: Default additionalProperties.\<close>

definition rule_default_additionalProperties :: "schema \<Rightarrow> schema" where
  "rule_default_additionalProperties s =
     (if isObjectType s \<and> additionalProperties s = None \<and> patternProperties s = None
      then s\<lparr>additionalProperties := Some (Prim (JBool True))\<rparr> else s)"

text \<open>Rule 6: Transform id to $id. The only rule that reads the file name.\<close>

definition id_conflict_message :: "string \<Rightarrow> string \<Rightarrow> string \<Rightarrow> string" where
  "id_conflict_message i d fileName =
     ''Schema must define either id or $id, not both. Given id='' @ i @ '', $id='' @ d
       @ '' in '' @ fileName"

definition rule_id_to_dollar_id :: "env \<Rightarrow> string \<Rightarrow> schema \<Rightarrow> error + schema" where
  "rule_id_to_dollar_id e fileName s =
     (if \<not> isSchemaLike e s then Inr s
      else if truthy_str (legacy_id s) \<and> truthy_str (dollar_id s) \<and> legacy_id s \<noteq> dollar_id s
      then Inl (ReferenceError
                 (id_conflict_message (the (legacy_id s)) (the (dollar_id s)) fileName))
      else if truthy_str (legacy_id s)
      then Inr (s\<lparr>dollar_id := legacy_id s, legacy_id := None\<rparr>)
      else Inr s)"

text \<open>Rule 7: Escape closing JSDoc comment.\<close>

definition rule_escape_jsdoc :: "env \<Rightarrow> schema \<Rightarrow> schema" where
  "rule_escape_jsdoc e s = escapeBlockComment e s"

text \<open>Rule 8: Add JSDoc comments for minItems and maxItems.\<close>

definition bound_comments :: "schema \<Rightarrow> string list" where
  "bound_comments s = filter (\<lambda>c. c \<noteq> [])
     [case minItems s of Some m \<Rightarrow> ''@minItems '' @ string_of_int m | None \<Rightarrow> [],
      case maxItems s of Some m \<Rightarrow> ''@maxItems '' @ string_of_int m | None \<Rightarrow> []]"

definition rule_jsdoc_min_max :: "env \<Rightarrow> schema \<Rightarrow> schema" where
  "rule_jsdoc_min_max e s =
     (if \<not> isArrayType s then s
      else if bound_comments s \<noteq> []
      then s\<lparr>description := Some (appendToDescription e (description s) (bound_comments s))\<rparr>
      else s)"

text \<open>Rule 9: Optionally remove maxItems and minItems (unconditional in this code).\<close>

definition rule_remove_min_max :: "schema \<Rightarrow> schema" where
  "rule_remove_min_max s =
     (if \<not> isArrayType s then s else s\<lparr>minItems := None, maxItems := None\<rparr>)"

text \<open>Rule 10: Normalize schema.minItems.\<close>

definition rule_normalize_minItems :: "schema \<Rightarrow> schema" where
  "rule_normalize_minItems s =
     (if \<not> isArrayType s then s
      else s\<lparr>minItems := Some (case minItems s of Some m \<Rightarrow> m | None \<Rightarrow> 0)\<rparr>)"

text \<open>
  Rule 11: Remove maxItems if it is big enough to likely cause OOMs. With \<^verbatim>\<open>minItems\<close>
  absent the difference is \<^verbatim>\<open>NaN\<close> and the comparison is false.
\<close>

definition rule_remove_big_maxItems :: "schema \<Rightarrow> schema" where
  "rule_remove_big_maxItems s =
     (if \<not> isArrayType s then s
      else case (maxItems s, minItems s) of
          (Some mx, Some mn) \<Rightarrow> if mx - mn > 20 then s\<lparr>maxItems := None\<rparr> else s
        | _ \<Rightarrow> s)"

text \<open>Rule 12: Normalize schema.items.\<close>

definition hasMaxItems :: "schema \<Rightarrow> bool" where
  "hasMaxItems s = (case maxItems s of Some m \<Rightarrow> m \<ge> 0 | None \<Rightarrow> False)"

definition hasMinItems :: "schema \<Rightarrow> bool" where
  "hasMinItems s = (case minItems s of Some m \<Rightarrow> m > 0 | None \<Rightarrow> False)"

text \<open>\<^verbatim>\<open>maxItems || minItems || 0\<close>: the first of the two bounds that is a non-zero number.\<close>

definition tuple_length :: "schema \<Rightarrow> int" where
  "tuple_length s = (case maxItems s of
       Some mx \<Rightarrow> if mx \<noteq> 0 then mx else (case minItems s of Some mn \<Rightarrow> mn | None \<Rightarrow> 0)
     | None \<Rightarrow> (case minItems s of Some mn \<Rightarrow> mn | None \<Rightarrow> 0))"

definition replicate_items :: "schema \<Rightarrow> error + schema" where
  "replicate_items s = (case items s of
       Some (ISingle c) \<Rightarrow>
         if truthy_child c \<and> (hasMaxItems s \<or> hasMinItems s)
         then (case array_fill (tuple_length s) c of
                 Inl err \<Rightarrow> Inl err
               | Inr newItems \<Rightarrow>
                   Inr ((if \<not> hasMaxItems s
                         then s\<lparr>additionalItems := Some c\<rparr> else s)
                        \<lparr>items := Some (IArray newItems)\<rparr>))
         else Inr s
     | _ \<Rightarrow> Inr s)"

definition truncate_items :: "schema \<Rightarrow> schema" where
  "truncate_items s = (case items s of
       Some (IArray cs) \<Rightarrow>
         if hasMaxItems s \<and> the (maxItems s) < int (length cs)
         then s\<lparr>items := Some (IArray (slice0 cs (the (maxItems s))))\<rparr> else s
     | _ \<Rightarrow> s)"

definition rule_normalize_items :: "schema \<Rightarrow> error + schema" where
  "rule_normalize_items s = (case replicate_items s of
       Inl err \<Rightarrow> Inl err
     | Inr s' \<Rightarrow> Inr (truncate_items s'))"

text \<open>Rule 13: Remove extends, if it is empty.\<close>

definition rule_remove_empty_extends :: "schema \<Rightarrow> schema" where
  "rule_remove_empty_extends s = (case extends s of
       None \<Rightarrow> s
     | Some XNull \<Rightarrow> s\<lparr>extends := None\<rparr>
     | Some (XArray []) \<Rightarrow> s\<lparr>extends := None\<rparr>
     | Some _ \<Rightarrow> s)"

text \<open>Rule 14: Make extends always an array, if it is defined.\<close>

definition rule_extends_array :: "schema \<Rightarrow> schema" where
  "rule_extends_array s = (case extends s of
       Some (XSingle c) \<Rightarrow> s\<lparr>extends := Some (XArray [c])\<rparr>
     | _ \<Rightarrow> s)"

text \<open>Rule 15: Transform const to singleton enum.\<close>

definition rule_const_to_enum :: "schema \<Rightarrow> schema" where
  "rule_const_to_enum s = (case const s of
       Some v \<Rightarrow> s\<lparr>enum := Some (EArray [v]), const := None\<rparr>
     | None \<Rightarrow> s)"

text \<open>
  The rule registry: a map iterated in insertion order. No rule reads the \<^verbatim>\<open>key\<close>
  argument, so a rule here is a function of the file name and the node.
\<close>

type_synonym rule = "string \<Rightarrow> schema \<Rightarrow> error + schema"

definition rules :: "env \<Rightarrow> rule list" where
  "rules e =
     [\<lambda>_ s. Inr (rule_remove_null_type s),
      \<lambda>_ s. Inr (rule_destructure_unary_types s),
      \<lambda>_ s. Inr (rule_add_empty_required s),
      \<lambda>_ s. Inr (rule_required_false s),
      \<lambda>_ s. Inr (rule_default_additionalProperties s),
      rule_id_to_dollar_id e,
      \<lambda>_ s. Inr (rule_escape_jsdoc e s),
      \<lambda>_ s. Inr (rule_jsdoc_min_max e s),
      \<lambda>_ s. Inr (rule_remove_min_max s),
      \<lambda>_ s. Inr (rule_normalize_minItems s),
      \<lambda>_ s. Inr (rule_remove_big_maxItems s),
      \<lambda>_ s. rule_normalize_items s,
      \<lambda>_ s. Inr (rule_remove_empty_extends s),
      \<lambda>_ s. Inr (rule_extends_array s),
      \<lambda>_ s. Inr (rule_const_to_enum s)]"

subsection \<open>The traversal engine\<close>

text \<open>
  Modelled from the spec: \<^verbatim>\<open>traverse\<close> of \<^verbatim>\<open>utils\<close> is not part of the sources at
  hand. Section 4.1 of the specification: the visitor is invoked on the root and on every
  structural child reachable through property values, \<^verbatim>\<open>items\<close>, schema-valued
  \<^verbatim>\<open>additionalItems\<close> and \<^verbatim>\<open>additionalProperties\<close>, the members of
  \<^verbatim>\<open>allOf\<close>, \<^verbatim>\<open>anyOf\<close> and \<^verbatim>\<open>oneOf\<close>, \<^verbatim>\<open>extends\<close> and the definition-map
  values; a visited set by identity makes a revisit a no-op. The walk is written with an
  explicit stack of pending positions; the visitor rewrites the visited object in place.
\<close>

definition opt_list :: "'a list option \<Rightarrow> 'a list" where
  "opt_list xs = (case xs of None \<Rightarrow> [] | Some ys \<Rightarrow> ys)"

definition additional_children :: "child option \<Rightarrow> child list" where
  "additional_children a = (case a of Some (Ref r) \<Rightarrow> [Ref r] | _ \<Rightarrow> [])"

definition items_children :: "items_field option \<Rightarrow> child list" where
  "items_children i = (case i of None \<Rightarrow> [] | Some (ISingle c) \<Rightarrow> [c] | Some (IArray cs) \<Rightarrow> cs)"

definition extends_children :: "extends_field option \<Rightarrow> child list" where
  "extends_children x = (case x of Some (XSingle c) \<Rightarrow> [c] | Some (XArray cs) \<Rightarrow> cs | _ \<Rightarrow> [])"

definition structural_children :: "schema \<Rightarrow> child list" where
  "structural_children s =
     map snd (opt_list (properties s)) @ map snd (opt_list (patternProperties s))
     @ items_children (items s) @ additional_children (additionalItems s)
     @ additional_children (additionalProperties s)
     @ opt_list (allOf s) @ opt_list (anyOf s) @ opt_list (oneOf s)
     @ extends_children (extends s) @ map snd (opt_list (dollar_defs s))"

function traverse ::
  "(schema \<Rightarrow> error + schema) \<Rightarrow> schema list \<Rightarrow> child list \<Rightarrow> nat set \<Rightarrow> error + schema list"
where
  "traverse callback h [] seen = Inr h"
| "traverse callback h (Prim v # pending) seen = traverse callback h pending seen"
| "traverse callback h (Ref r # pending) seen =
     (if r \<in> seen \<or> \<not> r < length h then traverse callback h pending seen
      else case callback (h ! r) of
          Inl err \<Rightarrow> Inl err
        | Inr s' \<Rightarrow>
            traverse callback (h[r := s']) (structural_children s' @ pending) (insert r seen))"
  by pat_completeness auto
termination
proof (relation "measures
    [\<lambda>(callback, h, pending, seen). card ({..<length h} - seen),
     \<lambda>(callback, h, pending, seen). length pending]", goal_cases)
  case 1
  then show ?case by simp
next
  case (2 callback h v pending seen)
  then show ?case by simp
next
  case (3 callback h r pending seen)
  then show ?case by simp
next
  case (4 callback h r pending seen s')
  then have "r \<in> {..<length h} - seen" by simp
  then have "card ({..<length h} - insert r seen) < card ({..<length h} - seen)"
    by (metis Diff_insert card_Diff1_less finite_Diff finite_lessThan)
  then show ?case by simp
qed

text \<open>\<^verbatim>\<open>normalize\<close>: one full walk per rule, in registry order; the first error aborts.\<close>

fun apply_rules :: "rule list \<Rightarrow> string \<Rightarrow> nat \<Rightarrow> schema list \<Rightarrow> error + schema list" where
  "apply_rules [] filename rootSchema h = Inr h"
| "apply_rules (rule # rest) filename rootSchema h =
     (case traverse (rule filename) h [Ref rootSchema] {} of
        Inl err \<Rightarrow> Inl err
      | Inr h' \<Rightarrow> apply_rules rest filename rootSchema h')"

definition normalize :: "env \<Rightarrow> nat \<Rightarrow> string \<Rightarrow> schema list \<Rightarrow> error + schema list" where
  "normalize e rootSchema filename h = apply_rules (rules e) filename rootSchema h"

section \<open>The AST and the state of one build\<close>

text \<open>
  AST objects have identity as well: the build cache hands out the same object to every
  requester. They live in a store of their own (\<open>ast list\<close>). The two module constants
  \<^verbatim>\<open>T_ANY\<close> and \<^verbatim>\<open>T_ANY_ADDITIONAL_PROPERTIES\<close> of \<^verbatim>\<open>types\<close> are objects outside
  that store.
\<close>

datatype aref = T_ANY | T_ANY_ADDITIONAL_PROPERTIES | Obj nat

record iparam =
  ip_ast :: aref
  isPatternProperty :: bool
  isRequired :: bool
  isUnreachableDefinition :: bool
  ip_keyName :: string

datatype params =
  NoParams
| Params "aref list"
| Param aref
| EnumParams "(aref \<times> string option) list"
| InterfaceParams "iparam list"
| LiteralParam json
| CustomParam "string option"

record ast =
  ast_type :: string
  comment :: "string option"
  ast_deprecated :: "bool option"
  keyName :: "string option"
  ast_standaloneName :: "string option"
  params :: params
  superTypes :: "aref list option"
  ast_minItems :: "int option"
  ast_maxItems :: "int option"
  spreadParam :: "aref option"

text \<open>The placeholder \<^verbatim>\<open>{}\<close>.\<close>

definition empty_ast :: ast where
  "empty_ast = \<lparr> ast_type = [], comment = None, ast_deprecated = None, keyName = None,
     ast_standaloneName = None, params = NoParams, superTypes = None, ast_minItems = None,
     ast_maxItems = None, spreadParam = None \<rparr>"

text \<open>
  Modelled from the spec: the constant \<^verbatim>\<open>T_ANY\<close> of \<^verbatim>\<open>types\<close> is not part of the
  sources at hand; it is an ANY node with no other attribute. The parser spreads its
  properties into the node it builds for the category \<open>ANY\<close>.
\<close>

definition T_ANY_properties :: ast where
  "T_ANY_properties = empty_ast\<lparr>ast_type := ''ANY''\<rparr>"

type_synonym definitions = "(string \<times> child) list"

record pstate =
  schemas :: "schema list"
  processed :: "nat \<Rightarrow> (schema_type \<Rightarrow> nat option) option"
  asts :: "ast list"
  usedNames :: "string list"
  definitionsCache :: "nat \<Rightarrow> definitions option"

text \<open>
  Reading the object at an address. Addresses outside the store do not arise from linked
  input; they read as an object with no keys.
\<close>

definition deref :: "schema list \<Rightarrow> nat \<Rightarrow> schema" where
  "deref h r = (if r < length h then h ! r else empty_schema)"

text \<open>
  Results: \<open>None\<close> when the fuel runs out, \<open>Some (Inl err)\<close> for a thrown error,
  \<open>Some (Inr v)\<close> for a value.
\<close>

type_synonym 'a res = "(error + 'a) option"

definition bind_res :: "'a res \<Rightarrow> ('a \<Rightarrow> 'b res) \<Rightarrow> 'b res" where
  "bind_res m f = (case m of None \<Rightarrow> None | Some (Inl err) \<Rightarrow> Some (Inl err) | Some (Inr v) \<Rightarrow> f v)"

definition return_res :: "'a \<Rightarrow> 'a res" where
  "return_res v = Some (Inr v)"

definition throw_res :: "error \<Rightarrow> 'a res" where
  "throw_res err = Some (Inl err)"

text \<open>\<^verbatim>\<open>xs.map(f)\<close> where \<open>f\<close> has effects: left to right, the first error aborts.\<close>

fun map_res :: "('a \<Rightarrow> 's \<Rightarrow> ('b \<times> 's) res) \<Rightarrow> 'a list \<Rightarrow> 's \<Rightarrow> ('b list \<times> 's) res" where
  "map_res f [] s = return_res ([], s)"
| "map_res f (x # xs) s =
     bind_res (f x s) (\<lambda>(y, s1).
     bind_res (map_res f xs s1) (\<lambda>(ys, s2). return_res (y # ys, s2)))"

definition nth_opt :: "'a list \<Rightarrow> nat \<Rightarrow> 'a option" where
  "nth_opt xs n = (if n < length xs then Some (xs ! n) else None)"

text \<open>\<^verbatim>\<open>s.replace(pat, by)\<close> with a string pattern: the first occurrence only.\<close>

fun replace_first :: "string \<Rightarrow> string \<Rightarrow> string \<Rightarrow> string" where
  "replace_first pat by [] = (if pat = [] then by else [])"
| "replace_first pat by (c # cs) =
     (if take (length pat) (c # cs) = pat then by @ drop (length pat) (c # cs)
      else c # replace_first pat by cs)"

section \<open>The definitions collector\<close>

text \<open>
  \<^verbatim>\<open>getDefinitions\<close> walks every key of every object and every element of every array
  it meets. The values under the keys of a schema object are arrays, maps and schema
  positions; \<open>gval\<close> is their common shape. The arrays and maps nested in a schema object
  carry no identity in this model, so the visited set holds schema addresses only. The
  keys are enumerated in the order of the record's fields.
\<close>

datatype gval = GPrim | GRef nat | GArr "gval list" | GMap "(string \<times> gval) list"

fun gval_of_json :: "json \<Rightarrow> gval" where
  "gval_of_json (JArr xs) = GArr (map gval_of_json xs)"
| "gval_of_json (JObj kvs) = GMap (map (\<lambda>(k, v). (k, gval_of_json v)) kvs)"
| "gval_of_json _ = GPrim"

fun gval_of_child :: "child \<Rightarrow> gval" where
  "gval_of_child (Ref r) = GRef r"
| "gval_of_child (Prim j) = gval_of_json j"

definition gval_of_map :: "(string \<times> child) list \<Rightarrow> gval" where
  "gval_of_map kvs = GMap (map (\<lambda>(k, c). (k, gval_of_child c)) kvs)"

definition gval_of_children :: "child list \<Rightarrow> gval" where
  "gval_of_children cs = GArr (map gval_of_child cs)"

definition opt_gval :: "('a \<Rightarrow> gval) \<Rightarrow> 'a option \<Rightarrow> gval list" where
  "opt_gval f x = (case x of None \<Rightarrow> [] | Some v \<Rightarrow> [f v])"

definition own_values :: "schema \<Rightarrow> gval list" where
  "own_values s =
     opt_gval (\<lambda>t. case t of TName _ \<Rightarrow> GPrim | TNames ts \<Rightarrow> GArr (map (\<lambda>_. GPrim) ts)) (type s)
     @ opt_gval (\<lambda>v. case v of EArray vs \<Rightarrow> GArr (map gval_of_json vs)
                             | EObject kvs \<Rightarrow> GMap (map (\<lambda>(k, v). (k, gval_of_json v)) kvs))
         (enum s)
     @ opt_gval gval_of_json (const s)
     @ opt_gval (\<lambda>q. case q of RBool _ \<Rightarrow> GPrim | RList ks \<Rightarrow> GArr (map (\<lambda>_. GPrim) ks))
         (required s)
     @ opt_gval gval_of_map (properties s)
     @ opt_gval gval_of_map (patternProperties s)
     @ opt_gval gval_of_child (additionalProperties s)
     @ opt_gval gval_of_map (dollar_defs s)
     @ opt_gval (\<lambda>_. GPrim) (legacy_id s)
     @ opt_gval (\<lambda>_. GPrim) (dollar_id s)
     @ opt_gval (\<lambda>_. GPrim) (title s)
     @ opt_gval (\<lambda>_. GPrim) (description s)
     @ opt_gval (\<lambda>_. GPrim) (deprecated s)
     @ opt_gval (\<lambda>_. GPrim) (minItems s)
     @ opt_gval (\<lambda>_. GPrim) (maxItems s)
     @ opt_gval (\<lambda>i. case i of ISingle c \<Rightarrow> gval_of_child c | IArray cs \<Rightarrow> gval_of_children cs)
         (items s)
     @ opt_gval gval_of_child (additionalItems s)
     @ opt_gval (\<lambda>x. case x of XNull \<Rightarrow> GPrim | XSingle c \<Rightarrow> gval_of_child c
                             | XArray cs \<Rightarrow> gval_of_children cs)
         (extends s)
     @ opt_gval gval_of_children (allOf s)
     @ opt_gval gval_of_children (anyOf s)
     @ opt_gval gval_of_children (oneOf s)
     @ opt_gval (\<lambda>_. GPrim) (tsType s)
     @ opt_gval (\<lambda>ns. GArr (map (\<lambda>_. GPrim) ns)) (tsEnumNames s)"

text \<open>
  The object spread \<^verbatim>\<open>{...a, ...b}\<close>: the keys of \<open>a\<close> in their order, with the value
  \<open>b\<close> gives them when it has the key, then the keys only \<open>b\<close> has.
\<close>

definition spread :: "(string \<times> 'a) list \<Rightarrow> (string \<times> 'a) list \<Rightarrow> (string \<times> 'a) list" where
  "spread a b =
     map (\<lambda>(k, v). (k, case map_of b k of Some w \<Rightarrow> w | None \<Rightarrow> v)) a
     @ filter (\<lambda>(k, v). k \<notin> fst ` set a) b"

definition hasDefinitions :: "schema \<Rightarrow> bool" where
  "hasDefinitions s = (dollar_defs s \<noteq> None)"

text \<open>
  \<^verbatim>\<open>getDefinitions(schema, isSchema, processed)\<close>: the visited set is threaded through
  the calls; \<open>getDefinitions_reduce\<close> is the \<^verbatim>\<open>reduce\<close> over the elements of an array
  or over the keys of an object, with its accumulator. Every recursive call passes
  \<^verbatim>\<open>false\<close> for \<^verbatim>\<open>isSchema\<close>. The first argument is the fuel.
\<close>

fun getDefinitions ::
    "nat \<Rightarrow> schema list \<Rightarrow> gval \<Rightarrow> bool \<Rightarrow> nat set \<Rightarrow> (definitions \<times> nat set) option"
  and getDefinitions_reduce ::
    "nat \<Rightarrow> schema list \<Rightarrow> gval list \<Rightarrow> definitions \<Rightarrow> nat set \<Rightarrow> (definitions \<times> nat set) option"
where
  "getDefinitions 0 h v isSchema seen = None"
| "getDefinitions (Suc n) h GPrim isSchema seen = Some ([], seen)"
| "getDefinitions (Suc n) h (GArr xs) isSchema seen = getDefinitions_reduce n h xs [] seen"
| "getDefinitions (Suc n) h (GMap kvs) isSchema seen =
     getDefinitions_reduce n h (map snd kvs) [] seen"
| "getDefinitions (Suc n) h (GRef r) isSchema seen =
     (if r \<in> seen then Some ([], seen)
      else case getDefinitions_reduce n h (own_values (deref h r)) [] (insert r seen) of
          None \<Rightarrow> None
        | Some (d, seen') \<Rightarrow>
            Some (spread (if isSchema \<and> hasDefinitions (deref h r)
                          then the (dollar_defs (deref h r)) else []) d, seen'))"
| "getDefinitions_reduce 0 h xs prev seen = None"
| "getDefinitions_reduce (Suc n) h [] prev seen = Some (prev, seen)"
| "getDefinitions_reduce (Suc n) h (cur # xs) prev seen =
     (case getDefinitions n h cur False seen of
        None \<Rightarrow> None
      | Some (d, seen') \<Rightarrow> getDefinitions_reduce n h xs (spread prev d) seen')"

text \<open>
  \<^verbatim>\<open>memoize(getDefinitions)\<close>: the cache is keyed by the first argument, the root's
  identity; a hit returns the stored result without calling the function.
\<close>

definition getDefinitionsMemoized :: "nat \<Rightarrow> nat \<Rightarrow> pstate \<Rightarrow> (definitions \<times> pstate) res" where
  "getDefinitionsMemoized n root s = (case definitionsCache s root of
       Some d \<Rightarrow> return_res (d, s)
     | None \<Rightarrow> (case getDefinitions n (schemas s) (GRef root) True {} of
           None \<Rightarrow> None
         | Some (d, seen) \<Rightarrow>
             return_res (d, s\<lparr>definitionsCache := (definitionsCache s)(root \<mapsto> d)\<rparr>)))"

text \<open>\<^verbatim>\<open>findKey(definitions, _ => _ === schema)\<close>: the first key bound to the object.\<close>

definition findKey :: "definitions \<Rightarrow> nat \<Rightarrow> string option" where
  "findKey d r = (case filter (\<lambda>(k, v). v = Ref r) d of [] \<Rightarrow> None | (k, v) # _ \<Rightarrow> Some k)"

section \<open>The AST builder\<close>

text \<open>
  \<^verbatim>\<open>parse\<close> and the functions it calls are mutually recursive. Each of them takes the
  recursive \<^verbatim>\<open>parse\<close> as its argument \<open>rec\<close>; \<open>parse_fuel\<close> ties the knot, one unit
  of fuel per nested call of \<^verbatim>\<open>parse\<close>. The same fuel bounds the definitions
  collector. Fields of a schema object are read from the store at the moment the code
  reads them.
\<close>

type_synonym parser = "child \<Rightarrow> string option \<Rightarrow> pstate \<Rightarrow> (nat \<times> pstate) res"

definition alloc_ast :: "ast \<Rightarrow> pstate \<Rightarrow> nat \<times> pstate" where
  "alloc_ast a s = (length (asts s), s\<lparr>asts := asts s @ [a]\<rparr>)"

definition alloc_schema :: "schema \<Rightarrow> pstate \<Rightarrow> nat \<times> pstate" where
  "alloc_schema x s = (length (schemas s), s\<lparr>schemas := schemas s @ [x]\<rparr>)"

definition parseBooleanSchema :: "bool \<Rightarrow> string option \<Rightarrow> ast" where
  "parseBooleanSchema b k =
     (if b then empty_ast\<lparr>keyName := k, ast_type := ''ANY''\<rparr>
      else empty_ast\<lparr>keyName := k, ast_type := ''NEVER''\<rparr>)"

definition parseLiteral :: "json \<Rightarrow> string option \<Rightarrow> ast" where
  "parseLiteral v k = empty_ast\<lparr>keyName := k, params := LiteralParam v, ast_type := ''LITERAL''\<rparr>"

text \<open>Compute a schema name using a series of fallbacks.\<close>

definition standaloneName ::
  "env \<Rightarrow> schema \<Rightarrow> string option \<Rightarrow> pstate \<Rightarrow> string option \<times> pstate" where
  "standaloneName e sch keyNameFromDefinition s =
     (let name = or_str (or_str (title sch) (dollar_id sch)) keyNameFromDefinition in
      if truthy_str name
      then (let (nm, used) = generateName e (the name) (usedNames s)
            in (Some nm, s\<lparr>usedNames := used\<rparr>))
      else (None, s))"

text \<open>The attributes every node built from a schema object carries.\<close>

definition node_ast :: "schema \<Rightarrow> string option \<Rightarrow> string option \<Rightarrow> string \<Rightarrow> ast" where
  "node_ast sch k sn ty = empty_ast\<lparr>comment := description sch,
     ast_deprecated := deprecated sch, keyName := k, ast_standaloneName := sn, ast_type := ty\<rparr>"

definition includes_required :: "schema \<Rightarrow> string \<Rightarrow> bool" where
  "includes_required sch key = (case required sch of Some (RList ks) \<Rightarrow> key \<in> set ks | _ \<Rightarrow> False)"

definition name_text :: "string option \<Rightarrow> string" where
  "name_text n = (case n of Some x \<Rightarrow> x | None \<Rightarrow> ''undefined'')"

definition patternProperty_comment :: "string option \<Rightarrow> string \<Rightarrow> string" where
  "patternProperty_comment parentSchemaName key =
     ''This interface was referenced by `'' @ name_text parentSchemaName
     @ ''`'' @ [CHR 0x27] @ ''s JSON-Schema definition'' @ [CHR 0x0A] @ ''via the `patternProperty` ''
     @ [CHR 0x22] @ replace_first ''*/'' ([CHR ''*'', CHR 0x5C, CHR ''/'']) key @ [CHR 0x22] @ ''.''"

definition definition_comment :: "string option \<Rightarrow> string \<Rightarrow> string" where
  "definition_comment parentSchemaName key =
     ''This interface was referenced by `'' @ name_text parentSchemaName
     @ ''`'' @ [CHR 0x27] @ ''s JSON-Schema'' @ [CHR 0x0A] @ ''via the `definition` ''
     @ [CHR 0x22] @ key @ [CHR 0x22] @ ''.''"

text \<open>\<^verbatim>\<open>ast.comment = ast.comment ? `${ast.comment}\n\n${comment}` : comment\<close>.\<close>

definition add_comment :: "nat \<Rightarrow> string \<Rightarrow> pstate \<Rightarrow> pstate" where
  "add_comment a c s =
     s\<lparr>asts := (asts s)[a := (asts s ! a)\<lparr>comment :=
          Some (if truthy_str (comment (asts s ! a))
                then the (comment (asts s ! a)) @ [CHR 0x0A, CHR 0x0A] @ c else c)\<rparr>]\<rparr>"

definition parseSuperTypes :: "parser \<Rightarrow> nat \<Rightarrow> pstate \<Rightarrow> (aref list \<times> pstate) res" where
  "parseSuperTypes rec r s = (case extends (deref (schemas s) r) of
       None \<Rightarrow> return_res ([], s)
     | Some XNull \<Rightarrow> return_res ([], s)
     | Some (XSingle c) \<Rightarrow> throw_res (TypeError ''superTypes.map is not a function'')
     | Some (XArray cs) \<Rightarrow>
         bind_res (map_res (\<lambda>c. rec c None) cs s) (\<lambda>(as, s'). return_res (map Obj as, s')))"

text \<open>Step 1 of \<^verbatim>\<open>parseSchema\<close>: one member per declared property.\<close>

definition parseSchema_properties ::
  "parser \<Rightarrow> nat \<Rightarrow> pstate \<Rightarrow> (iparam list \<times> pstate) res" where
  "parseSchema_properties rec r s =
     map_res (\<lambda>(key, value) s0.
         bind_res (rec value (Some key) s0) (\<lambda>(a, s1).
         return_res (\<lparr> ip_ast = Obj a, isPatternProperty = False,
                        isRequired = includes_required (deref (schemas s1) r) key,
                        isUnreachableDefinition = False, ip_keyName = key \<rparr>, s1)))
       (opt_list (properties (deref (schemas s) r))) s"

text \<open>Step 2: one member per pattern property.\<close>

definition singlePatternProperty :: "schema \<Rightarrow> bool" where
  "singlePatternProperty sch = (case patternProperties sch of
       None \<Rightarrow> False
     | Some pp \<Rightarrow>
         (case additionalProperties sch of None \<Rightarrow> True | Some c \<Rightarrow> \<not> truthy_child c)
         \<and> length pp = 1)"

definition parseSchema_patternProperties ::
  "parser \<Rightarrow> nat \<Rightarrow> string option \<Rightarrow> bool \<Rightarrow> pstate \<Rightarrow> (iparam list \<times> pstate) res" where
  "parseSchema_patternProperties rec r parentSchemaName single s =
     map_res (\<lambda>(key, value) s0.
         bind_res (rec value (Some key) s0) (\<lambda>(a, s1).
         let s2 = add_comment a (patternProperty_comment parentSchemaName key) s1 in
         return_res (\<lparr> ip_ast = Obj a, isPatternProperty = \<not> single,
                        isRequired = (single \<or> includes_required (deref (schemas s2) r) key),
                        isUnreachableDefinition = False,
                        ip_keyName = (if single then ''[k: string]'' else key) \<rparr>, s2)))
       (opt_list (patternProperties (deref (schemas s) r))) s"

text \<open>Step 3: one member per entry of \<^verbatim>\<open>$defs\<close>.\<close>

definition parseSchema_defs ::
  "parser \<Rightarrow> nat \<Rightarrow> string option \<Rightarrow> pstate \<Rightarrow> (iparam list \<times> pstate) res" where
  "parseSchema_defs rec r parentSchemaName s =
     map_res (\<lambda>(key, value) s0.
         bind_res (rec value (Some key) s0) (\<lambda>(a, s1).
         let s2 = add_comment a (definition_comment parentSchemaName key) s1 in
         return_res (\<lparr> ip_ast = Obj a, isPatternProperty = False,
                        isRequired = includes_required (deref (schemas s2) r) key,
                        isUnreachableDefinition = True, ip_keyName = key \<rparr>, s2)))
       (opt_list (dollar_defs (deref (schemas s) r))) s"

text \<open>Steps 1 to 3 together, with the flag step 2 computes.\<close>

definition parseSchema_members ::
  "parser \<Rightarrow> nat \<Rightarrow> string option \<Rightarrow> pstate \<Rightarrow> ((iparam list \<times> bool) \<times> pstate) res" where
  "parseSchema_members rec r parentSchemaName s =
     bind_res (parseSchema_properties rec r s) (\<lambda>(asts1, s1).
     let single = singlePatternProperty (deref (schemas s1) r) in
     bind_res (parseSchema_patternProperties rec r parentSchemaName single s1) (\<lambda>(asts2, s2).
     bind_res (parseSchema_defs rec r parentSchemaName s2) (\<lambda>(asts3, s3).
     return_res ((asts1 @ asts2 @ asts3, single), s3))))"

text \<open>Step 4: the \<^verbatim>\<open>switch\<close> on \<^verbatim>\<open>schema.additionalProperties\<close>.\<close>

definition any_additional_member :: iparam where
  "any_additional_member = \<lparr> ip_ast = T_ANY_ADDITIONAL_PROPERTIES, isPatternProperty = False,
     isRequired = True, isUnreachableDefinition = False, ip_keyName = ''[k: string]'' \<rparr>"

definition parseSchema_additionalProperties ::
  "parser \<Rightarrow> nat \<Rightarrow> iparam list \<Rightarrow> bool \<Rightarrow> pstate \<Rightarrow> (iparam list \<times> pstate) res" where
  "parseSchema_additionalProperties rec r members single s =
     (let additional = additionalProperties (deref (schemas s) r) in
      if additional = None \<or> additional = Some (Prim (JBool True))
      then (if single then return_res (members, s)
            else return_res (members @ [any_additional_member], s))
      else if additional = Some (Prim (JBool False)) then return_res (members, s)
      else bind_res (rec (the additional) (Some ''[k: string]'') s) (\<lambda>(a, s').
           return_res (members @ [\<lparr> ip_ast = Obj a, isPatternProperty = False,
               isRequired = True, isUnreachableDefinition = False,
               ip_keyName = ''[k: string]'' \<rparr>], s')))"

text \<open>Helper to parse schema properties into params on the parent schema's type.\<close>

definition parseSchema ::
  "parser \<Rightarrow> nat \<Rightarrow> string option \<Rightarrow> pstate \<Rightarrow> (iparam list \<times> pstate) res" where
  "parseSchema rec r parentSchemaName s =
     bind_res (parseSchema_members rec r parentSchemaName s) (\<lambda>((members, single), s3).
     parseSchema_additionalProperties rec r members single s3)"

definition newInterface ::
  "env \<Rightarrow> parser \<Rightarrow> nat \<Rightarrow> string option \<Rightarrow> string option \<Rightarrow> pstate \<Rightarrow> (ast \<times> pstate) res" where
  "newInterface e rec r k keyNameFromDefinition s =
     (let (name, s0) = standaloneName e (deref (schemas s) r) keyNameFromDefinition s;
          sch = deref (schemas s0) r in
      bind_res (parseSchema rec r name s0) (\<lambda>(ps, s1).
      bind_res (parseSuperTypes rec r s1) (\<lambda>(sup, s2).
      return_res ((node_ast sch k name ''INTERFACE'')
                    \<lparr>params := InterfaceParams ps, superTypes := Some sup\<rparr>, s2))))"

text \<open>Allocating the literal nodes of an enumeration.\<close>

fun alloc_literals :: "json list \<Rightarrow> pstate \<Rightarrow> nat list \<times> pstate" where
  "alloc_literals [] s = ([], s)"
| "alloc_literals (v # vs) s =
     (let (a, s1) = alloc_ast (parseLiteral v None) s;
          (as, s2) = alloc_literals vs s1
      in (a # as, s2))"

text \<open>A node with children parsed from a list of schema positions.\<close>

definition parse_children ::
  "parser \<Rightarrow> child list option \<Rightarrow> pstate \<Rightarrow> (aref list \<times> pstate) res" where
  "parse_children rec cs s = (case cs of
       None \<Rightarrow> throw_res (TypeError ''Cannot read properties of undefined (reading map)'')
     | Some xs \<Rightarrow>
         bind_res (map_res (\<lambda>c. rec c None) xs s) (\<lambda>(as, s'). return_res (map Obj as, s')))"

text \<open>
  The \<^verbatim>\<open>switch\<close> of \<^verbatim>\<open>parseNonLiteral\<close>, one definition per shape of case. In each,
  \<open>sch\<close> is the schema object as read when the case is entered and \<open>s\<close> the state at
  that moment. The properties of an object literal are evaluated in the order the code
  writes them.
\<close>

text \<open>The cases \<open>BOOLEAN\<close>, \<open>NEVER\<close>, \<open>NULL\<close>, \<open>NUMBER\<close>, \<open>OBJECT\<close> and \<open>STRING\<close>.\<close>

definition case_scalar ::
  "env \<Rightarrow> schema \<Rightarrow> string option \<Rightarrow> string option \<Rightarrow> string \<Rightarrow> pstate \<Rightarrow> (ast \<times> pstate) res"
where
  "case_scalar e sch k keyNameFromDefinition ty s =
     (let (sn, s1) = standaloneName e sch keyNameFromDefinition s in
      return_res (node_ast sch k sn ty, s1))"

text \<open>The cases \<open>ALL_OF\<close>, \<open>ANY_OF\<close> and \<open>ONE_OF\<close>, over the member list they read.\<close>

definition case_members ::
  "env \<Rightarrow> parser \<Rightarrow> schema \<Rightarrow> string option \<Rightarrow> string option \<Rightarrow> child list option \<Rightarrow> string
     \<Rightarrow> pstate \<Rightarrow> (ast \<times> pstate) res"
where
  "case_members e rec sch k keyNameFromDefinition members ty s =
     (let (sn, s1) = standaloneName e sch keyNameFromDefinition s in
      bind_res (parse_children rec members s1) (\<lambda>(ps, s2).
      return_res ((node_ast sch k sn ty)\<lparr>params := Params ps\<rparr>, s2)))"

definition case_ANY ::
  "env \<Rightarrow> schema \<Rightarrow> string option \<Rightarrow> string option \<Rightarrow> pstate \<Rightarrow> (ast \<times> pstate) res"
where
  "case_ANY e sch k keyNameFromDefinition s =
     (let (sn, s1) = standaloneName e sch keyNameFromDefinition s in
      return_res (T_ANY_properties\<lparr>comment := description sch,
        ast_deprecated := deprecated sch, keyName := k, ast_standaloneName := sn\<rparr>, s1))"

definition case_CUSTOM_TYPE ::
  "env \<Rightarrow> schema \<Rightarrow> string option \<Rightarrow> string option \<Rightarrow> pstate \<Rightarrow> (ast \<times> pstate) res"
where
  "case_CUSTOM_TYPE e sch k keyNameFromDefinition s =
     (let (sn, s1) = standaloneName e sch keyNameFromDefinition s in
      return_res ((node_ast sch k sn ''CUSTOM_TYPE'')\<lparr>params := CustomParam (tsType sch)\<rparr>, s1))"

text \<open>
  The case \<open>NAMED_ENUM\<close>. \<^verbatim>\<open>standaloneName\<close> is called twice, once for the
  \<^verbatim>\<open>console.log\<close> and once for the node; both calls reach the name allocator.
\<close>

definition case_NAMED_ENUM ::
  "env \<Rightarrow> schema \<Rightarrow> string option \<Rightarrow> string option \<Rightarrow> pstate \<Rightarrow> (ast \<times> pstate) res"
where
  "case_NAMED_ENUM e sch k keyNameFromDefinition s =
     (case enum sch of
        Some (EArray vs) \<Rightarrow>
          (if tsEnumNames sch = None \<and> vs \<noteq> []
           then throw_res (TypeError ''Cannot read properties of undefined'')
           else
             let (lits, s1) = alloc_literals vs s;
                 params2 = map (\<lambda>(a, i). (Obj a, nth_opt (opt_list (tsEnumNames sch)) i))
                             (zip lits [0..<length lits]);
                 name_hint = (case keyNameFromDefinition of Some d \<Rightarrow> Some d | None \<Rightarrow> k);
                 (logged, s2) = standaloneName e sch name_hint s1;
                 (sn, s3) = standaloneName e sch name_hint s2
             in return_res ((node_ast sch k sn ''ENUM'')\<lparr>params := EnumParams params2\<rparr>, s3))
      | _ \<Rightarrow> throw_res (TypeError ''schema.enum is an object''))"

text \<open>
  The spread parameter of a tuple: \<^verbatim>\<open>T_ANY\<close> when \<^verbatim>\<open>additionalItems === true\<close>, the
  parsed schema when it is truthy otherwise, and none when it is falsy.
\<close>

definition tuple_spreadParam ::
  "parser \<Rightarrow> child option \<Rightarrow> pstate \<Rightarrow> (aref option \<times> pstate) res" where
  "tuple_spreadParam rec additional s =
     (if additional = Some (Prim (JBool True)) then return_res (Some T_ANY, s)
      else case additional of
          None \<Rightarrow> return_res (None, s)
        | Some c \<Rightarrow>
            if truthy_child c
            then bind_res (rec c None s) (\<lambda>(a, s3). return_res (Some (Obj a), s3))
            else return_res (None, s))"

definition case_TYPED_ARRAY ::
  "env \<Rightarrow> parser \<Rightarrow> nat \<Rightarrow> schema \<Rightarrow> string option \<Rightarrow> string option \<Rightarrow> pstate
     \<Rightarrow> (ast \<times> pstate) res"
where
  "case_TYPED_ARRAY e rec r sch k keyNameFromDefinition s =
     (case items sch of
        Some (IArray cs) \<Rightarrow>
          (let (sn, s1) = standaloneName e sch keyNameFromDefinition s in
           bind_res (map_res (\<lambda>c. rec c None) cs s1) (\<lambda>(ps, s2).
           bind_res (tuple_spreadParam rec (additionalItems (deref (schemas s2) r)) s2)
             (\<lambda>(spread_param, s3).
           return_res ((node_ast sch k sn ''TUPLE'')\<lparr>ast_maxItems := maxItems sch,
                 ast_minItems := minItems sch, params := Params (map Obj ps),
                 spreadParam := spread_param\<rparr>, s3))))
      | Some (ISingle c) \<Rightarrow>
          (let (sn, s1) = standaloneName e sch keyNameFromDefinition s in
           bind_res (rec c (Some ''{keyNameFromDefinition}Items'') s1) (\<lambda>(a, s2).
           return_res ((node_ast sch k sn ''ARRAY'')\<lparr>params := Param (Obj a)\<rparr>, s2)))
      | None \<Rightarrow>
          (let (sn, s1) = standaloneName e sch keyNameFromDefinition s;
               (a, s2) = alloc_ast (empty_ast\<lparr>keyName := Some ''{keyNameFromDefinition}Items'',
                                      ast_type := ''LITERAL''\<rparr>) s1
           in return_res ((node_ast sch k sn ''ARRAY'')\<lparr>params := Param (Obj a)\<rparr>, s2)))"

definition case_UNION ::
  "env \<Rightarrow> parser \<Rightarrow> nat \<Rightarrow> schema \<Rightarrow> string option \<Rightarrow> string option \<Rightarrow> pstate
     \<Rightarrow> (ast \<times> pstate) res"
where
  "case_UNION e rec r sch k keyNameFromDefinition s =
     (let (sn, s1) = standaloneName e sch keyNameFromDefinition s in
      case type sch of
        Some (TNames ts) \<Rightarrow>
          bind_res (map_res (\<lambda>t s'.
              let member = (deref (schemas s') r)\<lparr>dollar_id := None, description := None,
                             title := None, type := Some (TName t)\<rparr>;
                  (m, s'') = alloc_schema member s';
                  (m', h) = maybeStripDefault e (schemas s'') m
              in rec (Ref m') None (s''\<lparr>schemas := h\<rparr>)) ts s1) (\<lambda>(ps, s2).
          return_res ((node_ast sch k sn ''UNION'')\<lparr>params := Params (map Obj ps)\<rparr>, s2))
      | _ \<Rightarrow> throw_res (TypeError ''schema.type.map is not a function''))"

definition case_UNNAMED_ENUM ::
  "env \<Rightarrow> schema \<Rightarrow> string option \<Rightarrow> string option \<Rightarrow> pstate \<Rightarrow> (ast \<times> pstate) res"
where
  "case_UNNAMED_ENUM e sch k keyNameFromDefinition s =
     (case enum sch of
        None \<Rightarrow> throw_res (TypeError ''Cannot convert undefined or null to object'')
      | Some en \<Rightarrow>
          (let values = (case en of EArray vs \<Rightarrow> vs | EObject kvs \<Rightarrow> map snd kvs);
               (lits, s1) = alloc_literals values s;
               (sn, s2) = standaloneName e sch keyNameFromDefinition s1
           in return_res ((node_ast sch k sn ''UNION'')\<lparr>params := Params (map Obj lits)\<rparr>, s2)))"

definition case_UNTYPED_ARRAY ::
  "env \<Rightarrow> schema \<Rightarrow> string option \<Rightarrow> string option \<Rightarrow> pstate \<Rightarrow> (ast \<times> pstate) res"
where
  "case_UNTYPED_ARRAY e sch k keyNameFromDefinition s =
     (let mx = (case maxItems sch of Some m \<Rightarrow> m | None \<Rightarrow> - 1) in
      if (case minItems sch of Some mn \<Rightarrow> mn > 0 | None \<Rightarrow> False) \<or> mx \<ge> 0
      then (case array_fill (case minItems sch of Some mn \<Rightarrow> max mx mn | None \<Rightarrow> 0) T_ANY of
              Inl err \<Rightarrow> throw_res err
            | Inr ps \<Rightarrow>
                (let (sn, s1) = standaloneName e sch keyNameFromDefinition s in
                 return_res ((node_ast sch k sn ''TUPLE'')\<lparr>ast_maxItems := maxItems sch,
                   ast_minItems := minItems sch, params := Params ps,
                   spreadParam := (if mx \<ge> 0 then None else Some T_ANY)\<rparr>, s1)))
      else (let (sn, s1) = standaloneName e sch keyNameFromDefinition s in
            return_res ((node_ast sch k sn ''ARRAY'')\<lparr>params := Param T_ANY\<rparr>, s1)))"

definition parseNonLiteral ::
  "env \<Rightarrow> nat \<Rightarrow> parser \<Rightarrow> nat \<Rightarrow> schema_type \<Rightarrow> string option \<Rightarrow> pstate \<Rightarrow> (ast \<times> pstate) res"
where
  "parseNonLiteral e n rec r ty k s =
     bind_res (getDefinitionsMemoized n (getRootSchema e (schemas s) r) s) (\<lambda>(definitions, s0).
     let keyNameFromDefinition = findKey definitions r;
         sch = deref (schemas s0) r
     in case ty of
       ALL_OF \<Rightarrow> case_members e rec sch k keyNameFromDefinition (allOf sch) ''INTERSECTION'' s0
     | ANY \<Rightarrow> case_ANY e sch k keyNameFromDefinition s0
     | ANY_OF \<Rightarrow> case_members e rec sch k keyNameFromDefinition (anyOf sch) ''UNION'' s0
     | BOOLEAN \<Rightarrow> case_scalar e sch k keyNameFromDefinition ''BOOLEAN'' s0
     | CUSTOM_TYPE \<Rightarrow> case_CUSTOM_TYPE e sch k keyNameFromDefinition s0
     | NAMED_ENUM \<Rightarrow> case_NAMED_ENUM e sch k keyNameFromDefinition s0
     | NAMED_SCHEMA \<Rightarrow> newInterface e rec r k None s0
     | NEVER \<Rightarrow> case_scalar e sch k keyNameFromDefinition ''NEVER'' s0
     | NULL \<Rightarrow> case_scalar e sch k keyNameFromDefinition ''NULL'' s0
     | NUMBER \<Rightarrow> case_scalar e sch k keyNameFromDefinition ''NUMBER'' s0
     | OBJECT \<Rightarrow> case_scalar e sch k keyNameFromDefinition ''OBJECT'' s0
     | ONE_OF \<Rightarrow> case_members e rec sch k keyNameFromDefinition (oneOf sch) ''UNION'' s0
     | REFERENCE \<Rightarrow>
         throw_res (Error ''Refs should have been resolved by the resolver! - [object Object]'')
     | STRING \<Rightarrow> case_scalar e sch k keyNameFromDefinition ''STRING'' s0
     | TYPED_ARRAY \<Rightarrow> case_TYPED_ARRAY e rec r sch k keyNameFromDefinition s0
     | UNION \<Rightarrow> case_UNION e rec r sch k keyNameFromDefinition s0
     | UNNAMED_ENUM \<Rightarrow> case_UNNAMED_ENUM e sch k keyNameFromDefinition s0
     | UNNAMED_SCHEMA \<Rightarrow> newInterface e rec r k keyNameFromDefinition s0
     | UNTYPED_ARRAY \<Rightarrow> case_UNTYPED_ARRAY e sch k keyNameFromDefinition s0)"

text \<open>
  \<^verbatim>\<open>Object.assign(ast, result)\<close> on the placeholder. Every object \<^verbatim>\<open>parseNonLiteral\<close>
  returns defines \<^verbatim>\<open>comment\<close>, the one property a placeholder can have received in
  the meantime, so the placeholder ends up with exactly the properties of the result.
\<close>

definition parseAsTypeWithCache ::
  "env \<Rightarrow> nat \<Rightarrow> parser \<Rightarrow> nat \<Rightarrow> schema_type \<Rightarrow> string option \<Rightarrow> pstate \<Rightarrow> (nat \<times> pstate) res"
where
  "parseAsTypeWithCache e n rec r ty k s =
     (let cachedTypeMap = (case processed s r of None \<Rightarrow> Map.empty | Some m \<Rightarrow> m);
          s0 = s\<lparr>processed := (processed s)(r \<mapsto> cachedTypeMap)\<rparr>
      in case cachedTypeMap ty of
           Some cachedAST \<Rightarrow> return_res (cachedAST, s0)
         | None \<Rightarrow>
             (let (a, s1) = alloc_ast empty_ast s0;
                  s2 = s1\<lparr>processed := (processed s1)(r \<mapsto> cachedTypeMap(ty \<mapsto> a))\<rparr>
              in bind_res (parseNonLiteral e n rec r ty k s2) (\<lambda>(result, s3).
                 return_res (a, s3\<lparr>asts := (asts s3)[a := result]\<rparr>))))"

definition parse :: "env \<Rightarrow> nat \<Rightarrow> parser \<Rightarrow> parser" where
  "parse e n rec c k s = (case c of
       Prim (JBool b) \<Rightarrow> return_res (alloc_ast (parseBooleanSchema b k) s)
     | Prim v \<Rightarrow> return_res (alloc_ast (parseLiteral v k) s)
     | Ref r \<Rightarrow>
         (let types = typesOfSchema e (deref (schemas s) r) in
          if length types = 1 then parseAsTypeWithCache e n rec r (hd types) k s
          else
            let sch = deref (schemas s) r;
                (w, s0) = alloc_schema (empty_schema\<lparr>dollar_id := dollar_id sch,
                            allOf := Some [], description := description sch,
                            title := title sch\<rparr>) s
            in bind_res (parseAsTypeWithCache e n rec w ALL_OF k s0) (\<lambda>(a, s1).
               bind_res (map_res (\<lambda>ty s'.
                   let (r', h) = maybeStripNameHints e (schemas s') r
                   in parseAsTypeWithCache e n rec r' ty k (s'\<lparr>schemas := h\<rparr>)) types s1)
                 (\<lambda>(ps, s2).
               return_res (a, s2\<lparr>asts := (asts s2)[a := (asts s2 ! a)\<lparr>params :=
                                   Params (map Obj ps)\<rparr>]\<rparr>)))))"

primrec parse_fuel :: "env \<Rightarrow> nat \<Rightarrow> parser" where
  "parse_fuel e 0 = (\<lambda>c k s. None)"
| "parse_fuel e (Suc n) = parse e n (parse_fuel e n)"

text \<open>
  A top-level build: \<^verbatim>\<open>parse(schema, keyName)\<close> with the default arguments, a fresh
  cache and a fresh set of used names. The store of schema objects and the memo of the
  definitions collector are what the caller's program holds at that moment.
\<close>

definition initial_state :: "schema list \<Rightarrow> (nat \<Rightarrow> definitions option) \<Rightarrow> pstate" where
  "initial_state h memo = \<lparr> schemas = h, processed = (\<lambda>_. None), asts = [], usedNames = [],
     definitionsCache = memo \<rparr>"


section \<open>A concrete instance of the parameters\<close>

text \<open>
  Modelled from the spec: the helpers of \<^verbatim>\<open>utils\<close> and \<^verbatim>\<open>types-of\<close> are not part of
  the sources at hand. This instance follows the specification's wording (sections 4.2,
  4.4 and 4.5) and serves the concrete examples: escaping replaces every \<^verbatim>\<open>*/\<close> of the
  description by \<^verbatim>\<open>* /\<close>; annotations are appended to the description after a blank
  line; a name is disambiguated against the used names by a numeric suffix; the
  classifier yields one tag per shape and one primitive tag per declared type of a
  multi-valued type set; the root of the document is the first object of the store.
\<close>

fun escape_close :: "string \<Rightarrow> string" where
  "escape_close (c1 # c2 # cs) =
     (if c1 = CHR ''*'' \<and> c2 = CHR ''/'' then ''* /'' @ escape_close cs
      else c1 # escape_close (c2 # cs))"
| "escape_close cs = cs"

definition spec_escapeBlockComment :: "schema \<Rightarrow> schema" where
  "spec_escapeBlockComment s = s\<lparr>description := map_option escape_close (description s)\<rparr>"

fun join_lines :: "string list \<Rightarrow> string" where
  "join_lines [] = []"
| "join_lines [x] = x"
| "join_lines (x # y # ys) = x @ [CHR 0x0A] @ join_lines (y # ys)"

definition spec_appendToDescription :: "string option \<Rightarrow> string list \<Rightarrow> string" where
  "spec_appendToDescription d vs =
     (if truthy_str d then the d @ [CHR 0x0A, CHR 0x0A] @ join_lines vs else join_lines vs)"

definition primitive_tag :: "string \<Rightarrow> schema_type list" where
  "primitive_tag t =
     (if t = ''string'' then [STRING]
      else if t = ''number'' \<or> t = ''integer'' then [NUMBER]
      else if t = ''boolean'' then [BOOLEAN]
      else if t = ''null'' then [NULL]
      else if t = ''any'' then [ANY]
      else if t = ''object'' then [UNNAMED_SCHEMA]
      else if t = ''array'' then [UNTYPED_ARRAY]
      else [])"

definition spec_typesOfSchema :: "schema \<Rightarrow> schema_type list" where
  "spec_typesOfSchema s =
     (if tsType s \<noteq> None then [CUSTOM_TYPE]
      else if allOf s \<noteq> None then [ALL_OF]
      else if anyOf s \<noteq> None then [ANY_OF]
      else if oneOf s \<noteq> None then [ONE_OF]
      else if enum s \<noteq> None \<and> tsEnumNames s \<noteq> None then [NAMED_ENUM]
      else if enum s \<noteq> None then [UNNAMED_ENUM]
      else if properties s \<noteq> None \<or> patternProperties s \<noteq> None
           then (if dollar_id s \<noteq> None then [NAMED_SCHEMA] else [UNNAMED_SCHEMA])
      else if items s \<noteq> None then [TYPED_ARRAY]
      else case type s of
          Some (TName t) \<Rightarrow> (if primitive_tag t = [] then [UNNAMED_SCHEMA] else primitive_tag t)
        | Some (TNames ts) \<Rightarrow> concat (map primitive_tag ts)
        | None \<Rightarrow> [UNNAMED_SCHEMA])"

definition spec_generateName :: "string \<Rightarrow> string list \<Rightarrow> string \<times> string list" where
  "spec_generateName name used =
     (let candidates = name # map (\<lambda>i. name @ string_of_nat i) [1..<length used + 2];
          chosen = (case filter (\<lambda>c. c \<notin> set used) candidates of [] \<Rightarrow> name | c # _ \<Rightarrow> c)
      in (chosen, used @ [chosen]))"

definition spec_maybeStripNameHints :: "schema list \<Rightarrow> nat \<Rightarrow> nat \<times> schema list" where
  "spec_maybeStripNameHints h r =
     (r, h[r := (deref h r)\<lparr>dollar_id := None, description := None, title := None\<rparr>])"

definition spec_env :: env where
  "spec_env = \<lparr> isSchemaLike = (\<lambda>s. True),
     escapeBlockComment = spec_escapeBlockComment,
     appendToDescription = spec_appendToDescription,
     typesOfSchema = spec_typesOfSchema,
     getRootSchema = (\<lambda>h r. 0),
     generateName = spec_generateName,
     maybeStripNameHints = spec_maybeStripNameHints,
     maybeStripDefault = (\<lambda>h r. (r, h)) \<rparr>"

text \<open>
  The build cache only grows: every entry of the cache in state \<open>s\<close> is an entry of the
  cache in state \<open>s'\<close>, with the same AST object.
\<close>

definition cache_le :: "pstate \<Rightarrow> pstate \<Rightarrow> bool" where
  "cache_le s s' = (\<forall>r m ty a. processed s r = Some m \<longrightarrow> m ty = Some a
                      \<longrightarrow> (\<exists>m'. processed s' r = Some m' \<and> m' ty = Some a))"

text \<open>A parser whose every returning call keeps the entries of the build cache.\<close>

definition cache_preserving :: "parser \<Rightarrow> bool" where
  "cache_preserving rec = (\<forall>c k s a s'. rec c k s = Some (Inr (a, s')) \<longrightarrow> cache_le s s')"

text \<open>
  The categories \<^verbatim>\<open>parseNonLiteral\<close> builds without looking at any other schema
  object.
\<close>

definition scalar_category :: "schema_type \<Rightarrow> bool" where
  "scalar_category ty = (ty \<in> {BOOLEAN, NEVER, NULL, NUMBER, OBJECT, STRING})"

text \<open>
  A property schema of the record \<open>r\<close> that is the record itself, or an object with
  exactly one category, a scalar one.
\<close>

definition self_or_scalar :: "env \<Rightarrow> schema list \<Rightarrow> nat \<Rightarrow> child \<Rightarrow> bool" where
  "self_or_scalar e h r c = (case c of
       Prim v \<Rightarrow> False
     | Ref q \<Rightarrow> q = r \<or> (case typesOfSchema e (deref h q) of
                               [tq] \<Rightarrow> scalar_category tq | _ \<Rightarrow> False))"

text \<open>
  A record with one category whose property schemas are the record itself or scalar
  objects, and with nothing else to build: no pattern properties, no definitions, no
  super types, no schema for the additional properties.
\<close>

definition plain_record :: "env \<Rightarrow> schema list \<Rightarrow> nat \<Rightarrow> bool" where
  "plain_record e h r =
     ((typesOfSchema e (deref h r) = [NAMED_SCHEMA] \<or> typesOfSchema e (deref h r) = [UNNAMED_SCHEMA])
      \<and> list_all (\<lambda>kv. self_or_scalar e h r (snd kv)) (opt_list (properties (deref h r)))
      \<and> patternProperties (deref h r) = None
      \<and> dollar_defs (deref h r) = None
      \<and> extends (deref h r) = None
      \<and> (additionalProperties (deref h r) = None
           \<or> additionalProperties (deref h r) = Some (Prim (JBool True))
           \<or> additionalProperties (deref h r) = Some (Prim (JBool False))))"


section \<open>The traversal visits a node at most once\<close>

lemma traverse_frame:
  "traverse cb h pending seen = Inr h' \<Longrightarrow>
     length h' = length h \<and>
     (\<forall>i < length h. (i \<in> seen \<longrightarrow> h' ! i = h ! i) \<and> (h' ! i = h ! i \<or> cb (h ! i) = Inr (h' ! i)))"
proof (induction cb h pending seen arbitrary: h' rule: traverse.induct)
  case (1 callback h seen)
  then show ?case by simp
next
  case (2 callback h v pending seen)
  then show ?case by simp
next
  case (3 callback h r pending seen)
  show ?case
  proof (cases "r \<in> seen \<or> \<not> r < length h")
    case True
    with 3 show ?thesis by simp
  next
    case False
    then obtain s' where cb: "callback (h ! r) = Inr s'"
      using 3(3) by (cases "callback (h ! r)") auto
    have t: "traverse callback (h[r := s']) (structural_children s' @ pending) (insert r seen) = Inr h'"
      using 3(3) False cb by simp
    have ih: "length h' = length (h[r := s']) \<and>
     (\<forall>i < length (h[r := s']). (i \<in> insert r seen \<longrightarrow> h' ! i = h[r := s'] ! i)
        \<and> (h' ! i = h[r := s'] ! i \<or> callback (h[r := s'] ! i) = Inr (h' ! i)))"
      using 3(2)[OF False cb t] .
    show ?thesis
    proof (intro conjI allI impI)
      show "length h' = length h" using ih by simp
    next
      fix i assume "i < length h" "i \<in> seen"
      then show "h' ! i = h ! i" using ih False by (cases "i = r") auto
    next
      fix i assume i: "i < length h"
      show "h' ! i = h ! i \<or> callback (h ! i) = Inr (h' ! i)"
      proof (cases "i = r")
        case True
        then have "h' ! i = s'" using ih i by simp
        then show ?thesis using cb True by simp
      next
        case False
        then show ?thesis using ih i by (auto simp: nth_list_update)
      qed
    qed
  qed
qed

section \<open>Rule 6: the migration of the legacy identifier\<close>

text \<open>
  Claim C8, as the code has it. The rule tests \<^verbatim>\<open>id\<close> and \<^verbatim>\<open>$id\<close> for truthiness. On
  a schema-like node whose \<^verbatim>\<open>id\<close> and \<^verbatim>\<open>$id\<close> are both non-empty and differ, the rule
  throws a \<^verbatim>\<open>ReferenceError\<close> whose message holds the two values and the file name.
  Otherwise, when \<^verbatim>\<open>id\<close> is non-empty (and \<^verbatim>\<open>$id\<close> is absent, empty or equal to it),
  \<^verbatim>\<open>id\<close> is moved into \<^verbatim>\<open>$id\<close>, over an empty \<^verbatim>\<open>$id\<close> too, and deleted, and no other
  field of the node changes. A node that is not schema-like, or whose \<^verbatim>\<open>id\<close> is absent
  or empty, is left as it is, whatever its \<^verbatim>\<open>$id\<close>. A walk of the rule over a store
  changes no object in any other way.
\<close>

theorem id_to_dollar_id_migration:
  "(isSchemaLike e s \<and> truthy_str (legacy_id s) \<and> truthy_str (dollar_id s)
      \<and> legacy_id s \<noteq> dollar_id s
     \<longrightarrow> rule_id_to_dollar_id e fileName s = Inl (ReferenceError
           (''Schema must define either id or $id, not both. Given id='' @ the (legacy_id s)
            @ '', $id='' @ the (dollar_id s) @ '' in '' @ fileName)))
 \<and> (isSchemaLike e s \<and> truthy_str (legacy_id s)
      \<and> (\<not> truthy_str (dollar_id s) \<or> dollar_id s = legacy_id s)
     \<longrightarrow> rule_id_to_dollar_id e fileName s
           = Inr (s\<lparr>dollar_id := legacy_id s, legacy_id := None\<rparr>))
 \<and> (\<not> isSchemaLike e s \<or> \<not> truthy_str (legacy_id s)
     \<longrightarrow> rule_id_to_dollar_id e fileName s = Inr s)
 \<and> (traverse (rule_id_to_dollar_id e fileName) h pending seen = Inr h'
     \<longrightarrow> length h' = length h
         \<and> (\<forall>i < length h. h' ! i = h ! i
               \<or> h' ! i = (h ! i)\<lparr>dollar_id := legacy_id (h ! i), legacy_id := None\<rparr>))"
proof (intro conjI impI)
  assume t: "traverse (rule_id_to_dollar_id e fileName) h pending seen = Inr h'"
  show "length h' = length h"
    using traverse_frame[OF t] by simp
  show "\<forall>i < length h. h' ! i = h ! i
          \<or> h' ! i = (h ! i)\<lparr>dollar_id := legacy_id (h ! i), legacy_id := None\<rparr>"
  proof (intro allI impI)
    fix i assume "i < length h"
    then have "h' ! i = h ! i \<or> rule_id_to_dollar_id e fileName (h ! i) = Inr (h' ! i)"
      using traverse_frame[OF t] by simp
    then show "h' ! i = h ! i
          \<or> h' ! i = (h ! i)\<lparr>dollar_id := legacy_id (h ! i), legacy_id := None\<rparr>"
      by (auto simp: rule_id_to_dollar_id_def split: if_splits)
  qed
qed (auto simp add: rule_id_to_dollar_id_def id_conflict_message_def)

theorem id_to_dollar_id_migration_witness:
  "rule_id_to_dollar_id spec_env ''a.json''
       (empty_schema\<lparr>legacy_id := Some ''old'', dollar_id := Some ''new''\<rparr>)
     = Inl (ReferenceError
         ''Schema must define either id or $id, not both. Given id=old, $id=new in a.json'')
   \<and> rule_id_to_dollar_id spec_env ''a.json'' (empty_schema\<lparr>legacy_id := Some ''old''\<rparr>)
     = Inr (empty_schema\<lparr>dollar_id := Some ''old''\<rparr>)
   \<and> rule_id_to_dollar_id spec_env ''a.json''
       (empty_schema\<lparr>legacy_id := Some ''old'', dollar_id := Some []\<rparr>)
     = Inr (empty_schema\<lparr>dollar_id := Some ''old''\<rparr>)
   \<and> rule_id_to_dollar_id spec_env ''a.json'' (empty_schema\<lparr>dollar_id := Some ''new''\<rparr>)
     = Inr (empty_schema\<lparr>dollar_id := Some ''new''\<rparr>)
   \<and> traverse (rule_id_to_dollar_id spec_env ''a.json'')
        [empty_schema\<lparr>legacy_id := Some ''old'', title := Some ''t''\<rparr>] [Ref 0] {}
     = Inr [empty_schema\<lparr>dollar_id := Some ''old'', title := Some ''t''\<rparr>]"
proof -
  have schema_like: "\<And>s. isSchemaLike spec_env s"
    by (simp add: spec_env_def)
  have no_children: "structural_children (empty_schema\<lparr>dollar_id := Some ''old'', title := Some ''t''\<rparr>) = []"
    by (simp add: structural_children_def empty_schema_def opt_list_def items_children_def
        additional_children_def extends_children_def)
  have walk: "traverse (rule_id_to_dollar_id spec_env ''a.json'')
        [empty_schema\<lparr>legacy_id := Some ''old'', title := Some ''t''\<rparr>] [Ref 0] {}
     = Inr [empty_schema\<lparr>dollar_id := Some ''old'', title := Some ''t''\<rparr>]"
    using id_to_dollar_id_migration
      [of spec_env "empty_schema\<lparr>legacy_id := Some ''old'', title := Some ''t''\<rparr>" "''a.json''"]
      schema_like no_children
    by (simp add: empty_schema_def)
  show ?thesis
    using id_to_dollar_id_migration
      [of spec_env "empty_schema\<lparr>legacy_id := Some ''old'', dollar_id := Some ''new''\<rparr>" "''a.json''"]
    id_to_dollar_id_migration
      [of spec_env "empty_schema\<lparr>legacy_id := Some ''old''\<rparr>" "''a.json''"]
    id_to_dollar_id_migration
      [of spec_env "empty_schema\<lparr>legacy_id := Some ''old'', dollar_id := Some []\<rparr>" "''a.json''"]
    id_to_dollar_id_migration
      [of spec_env "empty_schema\<lparr>dollar_id := Some ''new''\<rparr>" "''a.json''"]
    schema_like walk
    by (simp add: empty_schema_def)
qed

text \<open>
  The claim as stated fails on an empty legacy identifier: the node declares both keys
  with different values, and the rule neither throws nor moves anything.
\<close>

theorem id_to_dollar_id_empty_id_counterexample:
  "isSchemaLike spec_env (empty_schema\<lparr>legacy_id := Some [], dollar_id := Some ''x''\<rparr>)
   \<and> legacy_id (empty_schema\<lparr>legacy_id := Some [], dollar_id := Some ''x''\<rparr>) = Some []
   \<and> dollar_id (empty_schema\<lparr>legacy_id := Some [], dollar_id := Some ''x''\<rparr>) = Some ''x''
   \<and> rule_id_to_dollar_id spec_env ''a.json''
        (empty_schema\<lparr>legacy_id := Some [], dollar_id := Some ''x''\<rparr>)
     = Inr (empty_schema\<lparr>legacy_id := Some [], dollar_id := Some ''x''\<rparr>)"
  by (simp add: rule_id_to_dollar_id_def spec_env_def empty_schema_def)

section \<open>Rule 12: tuple arity from \<^verbatim>\<open>items\<close>\<close>

lemma replicate_single:
  assumes "items s = Some (ISingle c)" "truthy_child c" "hasMaxItems s \<or> hasMinItems s"
    and "0 \<le> tuple_length s" "tuple_length s < 4294967296"
  shows "replicate_items s = Inr ((if \<not> hasMaxItems s then s\<lparr>additionalItems := Some c\<rparr> else s)
           \<lparr>items := Some (IArray (replicate (nat (tuple_length s)) c))\<rparr>)"
  using assms by (simp add: replicate_items_def array_fill_def)

lemma replicate_array: "items s = Some (IArray cs) \<Longrightarrow> replicate_items s = Inr s"
  by (simp add: replicate_items_def)

lemma normalize_items_single:
  assumes wf_max: "\<forall>m. maxItems s = Some m \<longrightarrow> 0 \<le> m \<and> m < 4294967296"
      and wf_min: "\<forall>m. minItems s = Some m \<longrightarrow> 0 \<le> m \<and> m < 4294967296"
      and it: "items s = Some (ISingle c)" and tr: "truthy_child c"
      and bd: "hasMaxItems s \<or> hasMinItems s"
  shows "rule_normalize_items s = Inr (s\<lparr>
            additionalItems := (if hasMaxItems s then additionalItems s else Some c),
            items := Some (IArray (replicate
               (nat (if hasMaxItems s then the (maxItems s) else the (minItems s))) c))\<rparr>)"
proof (cases "maxItems s")
  case None
  then have nm: "\<not> hasMaxItems s" by (simp add: hasMaxItems_def)
  with bd obtain mn where mn: "minItems s = Some mn" "mn > 0"
    by (auto simp: hasMinItems_def split: option.splits)
  have tl: "tuple_length s = mn" using None mn by (simp add: tuple_length_def)
  have "mn < 4294967296" using wf_min mn by simp
  then have "replicate_items s = Inr (s\<lparr>additionalItems := Some c,
       items := Some (IArray (replicate (nat mn) c))\<rparr>)"
    using replicate_single[OF it tr bd] tl mn nm by simp
  then show ?thesis using nm mn
    by (simp add: rule_normalize_items_def truncate_items_def hasMaxItems_def None)
next
  case (Some mx)
  then have mx: "0 \<le> mx" "mx < 4294967296" using wf_max by auto
  then have hm: "hasMaxItems s" using Some by (simp add: hasMaxItems_def)
  show ?thesis
  proof (cases "mx = 0")
    case False
    then have tl: "tuple_length s = mx" using Some by (simp add: tuple_length_def)
    have "replicate_items s = Inr (s\<lparr>items := Some (IArray (replicate (nat mx) c))\<rparr>)"
      using replicate_single[OF it tr bd] tl mx hm by simp
    then show ?thesis using hm Some mx
      by (simp add: rule_normalize_items_def truncate_items_def hasMaxItems_def)
  next
    case True
    have tlb: "0 \<le> tuple_length s \<and> tuple_length s < 4294967296"
      using Some True wf_min by (auto simp: tuple_length_def split: option.splits)
    have "replicate_items s = Inr (s\<lparr>items := Some (IArray (replicate (nat (tuple_length s)) c))\<rparr>)"
      using replicate_single[OF it tr bd] tlb hm by simp
    then show ?thesis using hm Some True tlb
      by (auto simp add: rule_normalize_items_def truncate_items_def hasMaxItems_def slice0_def)
  qed
qed

lemma normalize_items_length_max:
  assumes wf_max: "\<forall>m. maxItems s = Some m \<longrightarrow> 0 \<le> m \<and> m < 4294967296"
      and wf_min: "\<forall>m. minItems s = Some m \<longrightarrow> 0 \<le> m \<and> m < 4294967296"
      and "maxItems s \<noteq> None" "minItems s \<noteq> None" "the (minItems s) \<le> the (maxItems s)"
  shows "(if hasMaxItems s then the (maxItems s) else the (minItems s))
              = max (the (maxItems s)) (the (minItems s))"
  using assms by (auto simp: hasMaxItems_def)

lemma normalize_items_truncates:
  assumes "items s = Some (IArray cs)" "hasMaxItems s" "the (maxItems s) < int (length cs)"
  shows "rule_normalize_items s = Inr (s\<lparr>items := Some (IArray (take (nat (the (maxItems s))) cs))\<rparr>)"
  using assms by (simp add: rule_normalize_items_def replicate_array truncate_items_def slice0_def)

lemma normalize_items_keeps_array:
  assumes "items s = Some (IArray cs)" "\<not> (hasMaxItems s \<and> the (maxItems s) < int (length cs))"
  shows "rule_normalize_items s = Inr s"
  using assms by (auto simp add: rule_normalize_items_def replicate_array truncate_items_def)

text \<open>
  The rule on a node taken alone, with bounds that are array lengths (between \<open>0\<close> and
  \<open>2^32 - 1\<close>). When \<^verbatim>\<open>items\<close> is a single truthy schema and a bound is present
  (\<^verbatim>\<open>maxItems\<close> is a number, or \<^verbatim>\<open>minItems\<close> is positive), it leaves a positional
  sequence of copies of the item schema whose length is \<^verbatim>\<open>maxItems\<close> when there is an
  upper bound and \<^verbatim>\<open>minItems\<close> otherwise, and sets \<^verbatim>\<open>additionalItems\<close> to the item
  schema exactly when there is no upper bound. An \<^verbatim>\<open>items\<close> array longer than
  \<^verbatim>\<open>maxItems\<close> is cut to its first \<^verbatim>\<open>maxItems\<close> entries.
\<close>

lemma normalize_items_on_a_node:
  assumes wf_max: "\<forall>m. maxItems s = Some m \<longrightarrow> 0 \<le> m \<and> m < 4294967296"
      and wf_min: "\<forall>m. minItems s = Some m \<longrightarrow> 0 \<le> m \<and> m < 4294967296"
  shows "(items s = Some (ISingle c) \<and> truthy_child c \<and> (hasMaxItems s \<or> hasMinItems s) \<longrightarrow>
          rule_normalize_items s = Inr (s\<lparr>
            additionalItems := (if hasMaxItems s then additionalItems s else Some c),
            items := Some (IArray (replicate
               (nat (if hasMaxItems s then the (maxItems s) else the (minItems s))) c))\<rparr>))
       \<and> (maxItems s \<noteq> None \<and> minItems s \<noteq> None \<and> the (minItems s) \<le> the (maxItems s) \<longrightarrow>
            (if hasMaxItems s then the (maxItems s) else the (minItems s))
              = max (the (maxItems s)) (the (minItems s)))
       \<and> (items s = Some (IArray cs) \<and> hasMaxItems s \<and> the (maxItems s) < int (length cs) \<longrightarrow>
          rule_normalize_items s
            = Inr (s\<lparr>items := Some (IArray (take (nat (the (maxItems s))) cs))\<rparr>))
       \<and> (items s = Some (IArray cs) \<and> \<not> (hasMaxItems s \<and> the (maxItems s) < int (length cs)) \<longrightarrow>
          rule_normalize_items s = Inr s)"
  using normalize_items_single[OF assms, of c] normalize_items_length_max[OF assms]
    normalize_items_truncates[of s cs] normalize_items_keeps_array[of s cs]
  by blast

text \<open>
  In the pipeline the rule never meets such a node. Rule 9 deletes both bounds from every
  array-like node, rule 10 then sets \<^verbatim>\<open>minItems\<close> to \<open>0\<close>, and a node that is not
  array-like has no \<^verbatim>\<open>items\<close>. So the rule returns its argument unchanged on every
  node that rules 9 to 11 have rewritten.
\<close>

lemma bounds_after_rules_9_to_11:
  "isArrayType s \<Longrightarrow>
     rule_remove_big_maxItems (rule_normalize_minItems (rule_remove_min_max s))
       = s\<lparr>minItems := Some 0, maxItems := None\<rparr>"
  by (simp add: rule_remove_big_maxItems_def rule_normalize_minItems_def rule_remove_min_max_def
      isArrayType_def hasType_def)

lemma not_array_after_rules_9_to_11:
  "\<not> isArrayType s \<Longrightarrow>
     rule_remove_big_maxItems (rule_normalize_minItems (rule_remove_min_max s)) = s"
  by (simp add: rule_remove_big_maxItems_def rule_normalize_minItems_def rule_remove_min_max_def)

lemma normalize_items_without_bounds:
  "\<not> hasMaxItems s \<Longrightarrow> \<not> hasMinItems s \<Longrightarrow> rule_normalize_items s = Inr s"
  by (auto simp: rule_normalize_items_def replicate_items_def truncate_items_def
      split: option.splits items_field.splits)

lemma normalize_items_without_items:
  "items s = None \<Longrightarrow> rule_normalize_items s = Inr s"
  by (simp add: rule_normalize_items_def replicate_items_def truncate_items_def)

lemma normalize_items_after_bounds_rules:
  "rule_normalize_items (rule_remove_big_maxItems (rule_normalize_minItems (rule_remove_min_max s)))
     = Inr (rule_remove_big_maxItems (rule_normalize_minItems (rule_remove_min_max s)))"
proof (cases "isArrayType s")
  case True
  show ?thesis
    unfolding bounds_after_rules_9_to_11[OF True]
    by (rule normalize_items_without_bounds) (simp_all add: hasMaxItems_def hasMinItems_def)
next
  case False
  then have "items s = None" by (simp add: isArrayType_def)
  then show ?thesis
    unfolding not_array_after_rules_9_to_11[OF False]
    by (rule normalize_items_without_items)
qed

text \<open>
  Claim C3 says that an array-like node with a single item schema and numeric bounds gets
  a positional sequence of \<open>max maxItems minItems\<close> copies of the item schema.
  \<^verbatim>\<open>normalize\<close> on \<^verbatim>\<open>{items: {type: "string"}, minItems: 2, maxItems: 3}\<close> builds no
  sequence: rule 8 writes the two bounds into the description, rule 9 deletes them, rule
  10 sets \<^verbatim>\<open>minItems\<close> to \<open>0\<close>, and rule 12 finds no bound. \<^verbatim>\<open>items\<close> is still the
  single schema, and \<^verbatim>\<open>additionalItems\<close> is not set.
\<close>

theorem normalize_builds_no_tuple:
  "(case normalize spec_env 0 ''a.json''
      [empty_schema\<lparr>items := Some (ISingle (Ref 1)), minItems := Some 2, maxItems := Some 3\<rparr>,
       empty_schema\<lparr>type := Some (TName ''string'')\<rparr>] of
     Inr h' \<Rightarrow> items (h' ! 0) = Some (ISingle (Ref 1)) \<and> additionalItems (h' ! 0) = None
               \<and> minItems (h' ! 0) = Some 0 \<and> maxItems (h' ! 0) = None
               \<and> description (h' ! 0) = Some (''@minItems 2'' @ [CHR 0x0A] @ ''@maxItems 3'')
               \<and> h' ! 1 = empty_schema\<lparr>type := Some (TName ''string'')\<rparr> \<and> length h' = 2
   | Inl err \<Rightarrow> False)"
  by code_simp

section \<open>Idempotence of the rules\<close>

lemma hasType_update [simp]:
  "hasType (s\<lparr>required := q\<rparr>) t = hasType s t"
  "hasType (s\<lparr>additionalProperties := a\<rparr>) t = hasType s t"
  "hasType (s\<lparr>minItems := m\<rparr>) t = hasType s t"
  "hasType (s\<lparr>maxItems := m\<rparr>) t = hasType s t"
  by (simp_all add: hasType_def)

lemma remove_null_type_idem:
  "rule_remove_null_type (rule_remove_null_type s) = rule_remove_null_type s"
  by (auto simp: rule_remove_null_type_def split: option.splits enum_field.splits type_field.splits)

lemma destructure_unary_types_idem:
  "rule_destructure_unary_types (rule_destructure_unary_types s) = rule_destructure_unary_types s"
  by (auto simp: rule_destructure_unary_types_def split: option.splits type_field.splits list.splits)

lemma add_empty_required_idem:
  "rule_add_empty_required (rule_add_empty_required s) = rule_add_empty_required s"
  by (simp add: rule_add_empty_required_def isObjectType_def)

lemma required_false_idem: "rule_required_false (rule_required_false s) = rule_required_false s"
  by (simp add: rule_required_false_def)

lemma default_additionalProperties_idem:
  "rule_default_additionalProperties (rule_default_additionalProperties s)
    = rule_default_additionalProperties s"
  by (simp add: rule_default_additionalProperties_def isObjectType_def)

lemma id_to_dollar_id_idem:
  "rule_id_to_dollar_id e f s = Inr s' \<Longrightarrow> rule_id_to_dollar_id e f s' = Inr s'"
  by (auto simp: rule_id_to_dollar_id_def split: if_splits)

lemma remove_min_max_idem: "rule_remove_min_max (rule_remove_min_max s) = rule_remove_min_max s"
  by (simp add: rule_remove_min_max_def isArrayType_def)

lemma normalize_minItems_idem:
  "rule_normalize_minItems (rule_normalize_minItems s) = rule_normalize_minItems s"
  by (simp add: rule_normalize_minItems_def isArrayType_def)

lemma remove_big_maxItems_idem:
  "rule_remove_big_maxItems (rule_remove_big_maxItems s) = rule_remove_big_maxItems s"
  by (auto simp: rule_remove_big_maxItems_def isArrayType_def split: option.splits)

lemma truncate_items_idem: "truncate_items (truncate_items s) = truncate_items s"
  by (auto simp: truncate_items_def hasMaxItems_def slice0_def split: option.splits items_field.splits)

lemma normalize_items_idem:
  assumes "rule_normalize_items s = Inr s'"
  shows "rule_normalize_items s' = Inr s'"
proof -
  from assms obtain s1 where s1: "replicate_items s = Inr s1" "s' = truncate_items s1"
    by (auto simp: rule_normalize_items_def split: sum.splits)
  have "\<forall>c. items s1 \<noteq> Some (ISingle c) \<or> \<not> (truthy_child c \<and> (hasMaxItems s1 \<or> hasMinItems s1))"
    using s1(1)
    by (auto simp: replicate_items_def hasMaxItems_def hasMinItems_def
        split: option.splits items_field.splits if_splits sum.splits)
  then have "\<forall>c. items s' \<noteq> Some (ISingle c) \<or> \<not> (truthy_child c \<and> (hasMaxItems s' \<or> hasMinItems s'))"
    using s1(2)
    by (auto simp: truncate_items_def hasMaxItems_def hasMinItems_def
        split: option.splits items_field.splits if_splits)
  then have "replicate_items s' = Inr s'"
    by (auto simp: replicate_items_def split: option.splits items_field.splits)
  then show ?thesis using s1(2) by (simp add: rule_normalize_items_def truncate_items_idem)
qed

lemma remove_empty_extends_idem:
  "rule_remove_empty_extends (rule_remove_empty_extends s) = rule_remove_empty_extends s"
  by (auto simp: rule_remove_empty_extends_def split: option.splits extends_field.splits list.splits)

lemma extends_array_idem: "rule_extends_array (rule_extends_array s) = rule_extends_array s"
  by (auto simp: rule_extends_array_def split: option.splits extends_field.splits)

lemma const_to_enum_idem: "rule_const_to_enum (rule_const_to_enum s) = rule_const_to_enum s"
  by (auto simp: rule_const_to_enum_def split: option.splits)

text \<open>
  Claim C2, as the code has it. Every rule but rule 8 is idempotent on a node, given that
  escaping the description is. Rule 8 appends the bound annotations each time it runs,
  and rule 10 leaves \<^verbatim>\<open>minItems\<close> behind on every array-like node, so the pipeline as a
  whole is not idempotent (the counterexample below).
\<close>

theorem rules_idempotent_except_bound_comments:
  assumes "escapeBlockComment e (escapeBlockComment e s) = escapeBlockComment e s"
  shows "rule_remove_null_type (rule_remove_null_type s) = rule_remove_null_type s
    \<and> rule_destructure_unary_types (rule_destructure_unary_types s)
        = rule_destructure_unary_types s
    \<and> rule_add_empty_required (rule_add_empty_required s) = rule_add_empty_required s
    \<and> rule_required_false (rule_required_false s) = rule_required_false s
    \<and> rule_default_additionalProperties (rule_default_additionalProperties s)
        = rule_default_additionalProperties s
    \<and> (\<forall>s'. rule_id_to_dollar_id e f s = Inr s' \<longrightarrow> rule_id_to_dollar_id e f s' = Inr s')
    \<and> rule_escape_jsdoc e (rule_escape_jsdoc e s) = rule_escape_jsdoc e s
    \<and> rule_remove_min_max (rule_remove_min_max s) = rule_remove_min_max s
    \<and> rule_normalize_minItems (rule_normalize_minItems s) = rule_normalize_minItems s
    \<and> rule_remove_big_maxItems (rule_remove_big_maxItems s) = rule_remove_big_maxItems s
    \<and> (\<forall>s'. rule_normalize_items s = Inr s' \<longrightarrow> rule_normalize_items s' = Inr s')
    \<and> rule_remove_empty_extends (rule_remove_empty_extends s) = rule_remove_empty_extends s
    \<and> rule_extends_array (rule_extends_array s) = rule_extends_array s
    \<and> rule_const_to_enum (rule_const_to_enum s) = rule_const_to_enum s"
  using assms
  by (simp add: remove_null_type_idem destructure_unary_types_idem add_empty_required_idem
      required_false_idem default_additionalProperties_idem id_to_dollar_id_idem
      rule_escape_jsdoc_def remove_min_max_idem normalize_minItems_idem remove_big_maxItems_idem
      normalize_items_idem remove_empty_extends_idem extends_array_idem const_to_enum_idem)

theorem rules_idempotent_except_bound_comments_witness:
  "escapeBlockComment spec_env (escapeBlockComment spec_env
       (empty_schema\<lparr>description := Some ''a*/b'', const := Some JNull\<rparr>))
     = empty_schema\<lparr>description := Some ''a* /b'', const := Some JNull\<rparr>
   \<and> rule_escape_jsdoc spec_env (rule_escape_jsdoc spec_env
       (empty_schema\<lparr>description := Some ''a*/b'', const := Some JNull\<rparr>))
     = empty_schema\<lparr>description := Some ''a* /b'', const := Some JNull\<rparr>
   \<and> rule_const_to_enum (rule_const_to_enum
       (empty_schema\<lparr>description := Some ''a*/b'', const := Some JNull\<rparr>))
     = empty_schema\<lparr>description := Some ''a*/b'', enum := Some (EArray [JNull])\<rparr>"
proof -
  have esc: "escapeBlockComment spec_env (escapeBlockComment spec_env
       (empty_schema\<lparr>description := Some ''a*/b'', const := Some JNull\<rparr>))
     = escapeBlockComment spec_env (empty_schema\<lparr>description := Some ''a*/b'', const := Some JNull\<rparr>)"
    by (simp add: spec_env_def spec_escapeBlockComment_def empty_schema_def)
  show ?thesis
    using rules_idempotent_except_bound_comments[OF esc]
    by (simp add: spec_env_def spec_escapeBlockComment_def empty_schema_def
        rule_escape_jsdoc_def rule_const_to_enum_def)
qed

text \<open>
  The claim as stated fails on the one-node tree \<^verbatim>\<open>{type: "array"}\<close>: the first run
  of the pipeline adds \<^verbatim>\<open>minItems: 0\<close>, the second run annotates the description with
  it.
\<close>

lemma string_of_int_0: "string_of_int 0 = ''0''"
  by (simp add: string_of_int_def string_of_nat.simps[of 0] digit_char_def)

lemmas rule_defs = rule_remove_null_type_def rule_destructure_unary_types_def
  rule_add_empty_required_def rule_required_false_def rule_default_additionalProperties_def
  rule_id_to_dollar_id_def rule_escape_jsdoc_def rule_jsdoc_min_max_def rule_remove_min_max_def
  rule_normalize_minItems_def rule_remove_big_maxItems_def rule_normalize_items_def
  rule_remove_empty_extends_def rule_extends_array_def rule_const_to_enum_def
  replicate_items_def truncate_items_def bound_comments_def isArrayType_def isObjectType_def
  hasType_def hasMaxItems_def hasMinItems_def

lemmas child_defs = structural_children_def opt_list_def items_children_def
  additional_children_def extends_children_def

theorem normalize_twice_counterexample:
  "normalize spec_env 0 ''a.json'' [empty_schema\<lparr>type := Some (TName ''array'')\<rparr>]
     = Inr [empty_schema\<lparr>type := Some (TName ''array''), minItems := Some 0\<rparr>]
   \<and> normalize spec_env 0 ''a.json''
        [empty_schema\<lparr>type := Some (TName ''array''), minItems := Some 0\<rparr>]
     = Inr [empty_schema\<lparr>type := Some (TName ''array''), description := Some ''@minItems 0'',
              minItems := Some 0\<rparr>]
   \<and> empty_schema\<lparr>type := Some (TName ''array''), minItems := Some 0\<rparr>
     \<noteq> empty_schema\<lparr>type := Some (TName ''array''), description := Some ''@minItems 0'',
          minItems := Some 0\<rparr>"
  by (simp add: normalize_def rules_def rule_defs spec_env_def spec_escapeBlockComment_def
      child_defs spec_appendToDescription_def string_of_int_0 empty_schema_def)

section \<open>The definitions collector: results, fuel and termination\<close>

lemma spread_Nil [simp]: "spread a [] = a"
  by (induction a) (auto simp: spread_def)

lemma spread_Nil_left [simp]: "spread [] b = b"
  by (simp add: spread_def)














text \<open>
  Claim C5. The collector walks everything reachable from the root and returns the empty
  map on a revisit, and the memo returns the stored result for a root it has seen. But
  every recursive call passes \<^verbatim>\<open>false\<close> for \<^verbatim>\<open>isSchema\<close>, so only the root's own
  \<^verbatim>\<open>$defs\<close> are ever merged (\<open>getDefinitions_root\<close>): the definition \<open>X\<close> declared on
  the property \<open>a\<close> of the root below is visited and not collected.
\<close>

theorem getDefinitions_nested_defs_ignored:
  "getDefinitions 11
      [empty_schema\<lparr>properties := Some [(''a'', Ref 1)]\<rparr>,
       empty_schema\<lparr>dollar_defs := Some [(''X'', Ref 2)]\<rparr>,
       empty_schema\<lparr>type := Some (TName ''string'')\<rparr>]
      (GRef 0) True {} = Some ([], {0, 1, 2})"
  by code_simp

section \<open>Building a named enumeration\<close>


lemma memo_no_throw: "getDefinitionsMemoized n root s \<noteq> Some (Inl err)"
  by (auto simp: getDefinitionsMemoized_def return_res_def split: option.splits)












section \<open>Standalone names\<close>



lemma bind_res_Inr:
  "bind_res m f = Some (Inr y) \<Longrightarrow> \<exists>x. m = Some (Inr x) \<and> f x = Some (Inr y)"
  by (auto simp: bind_res_def split: option.splits sum.splits)

lemma standalone_node_ast [simp]: "ast_standaloneName (node_ast sch k sn ty) = sn"
  by (simp add: node_ast_def)




















section \<open>The members of a record\<close>

lemma map_res_Cons_Inr:
  "map_res f (x # xs) s = Some (Inr (ys, s')) \<Longrightarrow>
     \<exists>y s1 zs. f x s = Some (Inr (y, s1)) \<and> map_res f xs s1 = Some (Inr (zs, s')) \<and> ys = y # zs"
  by (auto simp: bind_res_def return_res_def split: option.splits sum.splits prod.splits)

lemma map_res_Inr:
  "map_res f xs s = Some (Inr (ys, s')) \<Longrightarrow> length ys = length xs"
proof (induction xs arbitrary: s ys s')
  case Nil
  then show ?case by (simp add: return_res_def)
next
  case (Cons x xs)
  from map_res_Cons_Inr[OF Cons(2)] obtain y s1 zs where 1: "f x s = Some (Inr (y, s1))"
    and 3: "map_res f xs s1 = Some (Inr (zs, s'))" and 4: "ys = y # zs"
    by blast
  from Cons(1)[OF 3] 4 show ?case by simp
qed

lemma map_res_all:
  assumes "map_res f xs s = Some (Inr (ys, s'))"
    and "\<And>x s0 y s1. x \<in> set xs \<Longrightarrow> f x s0 = Some (Inr (y, s1)) \<Longrightarrow> P x y"
  shows "list_all2 P xs ys"
  using assms
proof (induction xs arbitrary: s ys s')
  case Nil
  then show ?case by (simp add: return_res_def)
next
  case (Cons x xs)
  from map_res_Cons_Inr[OF Cons(2)] obtain y s1 zs where 1: "f x s = Some (Inr (y, s1))"
    and 3: "map_res f xs s1 = Some (Inr (zs, s'))" and 4: "ys = y # zs"
    by blast
  have "P x y" using Cons(3)[of x s y s1] 1 by simp
  moreover have "list_all2 P xs zs" using Cons(1)[OF 3] Cons(3) by simp
  ultimately show ?case using 4 by simp
qed

lemma properties_members:
  assumes "parseSchema_properties rec r s = Some (Inr (ms, s'))"
  shows "map ip_keyName ms = map fst (opt_list (properties (deref (schemas s) r)))
       \<and> (\<forall>m \<in> set ms. \<not> isPatternProperty m \<and> \<not> isUnreachableDefinition m)"
proof -
  let ?P = "\<lambda>x m. ip_keyName m = fst x \<and> \<not> isPatternProperty m \<and> \<not> isUnreachableDefinition m"
  have "list_all2 ?P (opt_list (properties (deref (schemas s) r))) ms"
    by (rule map_res_all[OF assms[unfolded parseSchema_properties_def]])
       (auto simp: return_res_def dest!: bind_res_Inr)
  then show ?thesis
    by (induction rule: list_all2_induct) auto
qed

lemma defs_members:
  assumes "parseSchema_defs rec r name s = Some (Inr (ms, s'))"
  shows "map ip_keyName ms = map fst (opt_list (dollar_defs (deref (schemas s) r)))
       \<and> (\<forall>m \<in> set ms. \<not> isPatternProperty m \<and> isUnreachableDefinition m)"
proof -
  let ?P = "\<lambda>x m. ip_keyName m = fst x \<and> \<not> isPatternProperty m \<and> isUnreachableDefinition m"
  have "list_all2 ?P (opt_list (dollar_defs (deref (schemas s) r))) ms"
    by (rule map_res_all[OF assms[unfolded parseSchema_defs_def]])
       (auto simp: return_res_def Let_def dest!: bind_res_Inr)
  then show ?thesis
    by (induction rule: list_all2_induct) auto
qed

lemma patternProperties_members:
  assumes "parseSchema_patternProperties rec r name single s = Some (Inr (ms, s'))"
  shows "map ip_keyName ms
           = map (\<lambda>x. if single then ''[k: string]'' else fst x)
               (opt_list (patternProperties (deref (schemas s) r)))
       \<and> (\<forall>m \<in> set ms. isPatternProperty m = (\<not> single) \<and> \<not> isUnreachableDefinition m
              \<and> (single \<longrightarrow> isRequired m))"
proof -
  let ?P = "\<lambda>x m. ip_keyName m = (if single then ''[k: string]'' else fst x)
       \<and> isPatternProperty m = (\<not> single) \<and> \<not> isUnreachableDefinition m \<and> (single \<longrightarrow> isRequired m)"
  have "list_all2 ?P (opt_list (patternProperties (deref (schemas s) r))) ms"
    by (rule map_res_all[OF assms[unfolded parseSchema_patternProperties_def]])
       (auto simp: return_res_def Let_def dest!: bind_res_Inr)
  then show ?thesis
    by (induction rule: list_all2_induct) auto
qed

lemma single_pattern_member:
  assumes sp: "singlePatternProperty (deref (schemas s) r)"
    and res: "parseSchema_patternProperties rec r name True s = Some (Inr (ms, s'))"
  shows "\<exists>pat sub a s1. patternProperties (deref (schemas s) r) = Some [(pat, sub)]
          \<and> rec sub (Some pat) s = Some (Inr (a, s1))
          \<and> s' = add_comment a (patternProperty_comment name pat) s1
          \<and> ms = [\<lparr> ip_ast = Obj a, isPatternProperty = False, isRequired = True,
                    isUnreachableDefinition = False, ip_keyName = ''[k: string]'' \<rparr>]"
proof -
  from sp obtain pp where pp: "patternProperties (deref (schemas s) r) = Some pp" "length pp = 1"
    by (auto simp: singlePatternProperty_def split: option.splits)
  then obtain pat sub where pv: "pp = [(pat, sub)]"
    by (cases pp) (auto simp: length_Suc_conv)
  show ?thesis
    using res
    by (auto simp: parseSchema_patternProperties_def pp(1) pv opt_list_def return_res_def Let_def
        dest!: bind_res_Inr)
qed

lemma parseSchema_members_Inr:
  assumes "parseSchema_members rec r name s = Some (Inr ((members, single), s3))"
  shows "\<exists>asts1 s1 asts2 s2 asts3.
           parseSchema_properties rec r s = Some (Inr (asts1, s1))
         \<and> single = singlePatternProperty (deref (schemas s1) r)
         \<and> parseSchema_patternProperties rec r name single s1 = Some (Inr (asts2, s2))
         \<and> parseSchema_defs rec r name s2 = Some (Inr (asts3, s3))
         \<and> members = asts1 @ asts2 @ asts3"
  using assms
  by (auto simp: parseSchema_members_def return_res_def Let_def dest!: bind_res_Inr)

lemma parseSchema_members_intro:
  assumes "parseSchema_properties rec r s = Some (Inr (asts1, s1))"
      and "parseSchema_patternProperties rec r name (singlePatternProperty (deref (schemas s1) r)) s1
             = Some (Inr (asts2, s2))"
      and "parseSchema_defs rec r name s2 = Some (Inr (asts3, s3))"
  shows "parseSchema_members rec r name s
     = Some (Inr ((asts1 @ asts2 @ asts3, singlePatternProperty (deref (schemas s1) r)), s3))"
  using assms by (simp add: parseSchema_members_def bind_res_def return_res_def)

lemma parseSchema_from_members:
  assumes "parseSchema_members rec r name s = Some (Inr ((members, single), s3))"
  shows "parseSchema rec r name s = parseSchema_additionalProperties rec r members single s3"
  using assms by (simp add: parseSchema_def bind_res_def)

text \<open>
  The \<^verbatim>\<open>switch\<close> on \<^verbatim>\<open>additionalProperties\<close>. Steps 1 to 3 of \<^verbatim>\<open>parseSchema\<close> have
  returned the members so far, the flag \<open>single\<close> of the pattern-properties step and the
  state \<open>s3\<close>; \<^verbatim>\<open>additionalProperties\<close> is read in that state. Absent or \<^verbatim>\<open>true\<close>:
  the member \<open>any_additional_member\<close> (\<^verbatim>\<open>T_ANY_ADDITIONAL_PROPERTIES\<close> under the key
  \<open>[k: string]\<close>, required) is appended, unless \<open>single\<close> holds, in which case nothing
  is. \<^verbatim>\<open>false\<close>: nothing is appended. Any other value: it is parsed under the key
  \<open>[k: string]\<close> and appended as a required member. When \<open>single\<close> holds the members
  already hold the catch-all of the pattern-properties step, which is required as well.
\<close>

lemma additionalProperties_switch:
  assumes mem: "parseSchema_members rec r name s = Some (Inr ((members, single), s3))"
  shows "(additionalProperties (deref (schemas s3) r) = None
            \<or> additionalProperties (deref (schemas s3) r) = Some (Prim (JBool True))
          \<longrightarrow> parseSchema rec r name s
                = Some (Inr (if single then members else members @ [any_additional_member], s3)))
       \<and> (additionalProperties (deref (schemas s3) r) = Some (Prim (JBool False))
          \<longrightarrow> parseSchema rec r name s = Some (Inr (members, s3)))
       \<and> (\<forall>c. additionalProperties (deref (schemas s3) r) = Some c
               \<and> c \<noteq> Prim (JBool True) \<and> c \<noteq> Prim (JBool False)
          \<longrightarrow> parseSchema rec r name s
                = bind_res (rec c (Some ''[k: string]'') s3) (\<lambda>(a, s').
                    return_res (members @ [\<lparr> ip_ast = Obj a, isPatternProperty = False,
                      isRequired = True, isUnreachableDefinition = False,
                      ip_keyName = ''[k: string]'' \<rparr>], s')))
       \<and> (single \<longrightarrow> (\<exists>m \<in> set members. ip_keyName m = ''[k: string]'' \<and> isRequired m
                            \<and> \<not> isPatternProperty m))
       \<and> any_additional_member = \<lparr> ip_ast = T_ANY_ADDITIONAL_PROPERTIES,
            isPatternProperty = False, isRequired = True, isUnreachableDefinition = False,
            ip_keyName = ''[k: string]'' \<rparr>"
proof (intro conjI impI allI)
  assume "additionalProperties (deref (schemas s3) r) = None
            \<or> additionalProperties (deref (schemas s3) r) = Some (Prim (JBool True))"
  then show "parseSchema rec r name s
                = Some (Inr (if single then members else members @ [any_additional_member], s3))"
    unfolding parseSchema_from_members[OF mem]
    by (auto simp: parseSchema_additionalProperties_def return_res_def)
next
  assume "additionalProperties (deref (schemas s3) r) = Some (Prim (JBool False))"
  then show "parseSchema rec r name s = Some (Inr (members, s3))"
    unfolding parseSchema_from_members[OF mem]
    by (simp add: parseSchema_additionalProperties_def return_res_def)
next
  fix c
  assume "additionalProperties (deref (schemas s3) r) = Some c
               \<and> c \<noteq> Prim (JBool True) \<and> c \<noteq> Prim (JBool False)"
  then show "parseSchema rec r name s
                = bind_res (rec c (Some ''[k: string]'') s3) (\<lambda>(a, s').
                    return_res (members @ [\<lparr> ip_ast = Obj a, isPatternProperty = False,
                      isRequired = True, isUnreachableDefinition = False,
                      ip_keyName = ''[k: string]'' \<rparr>], s'))"
    unfolding parseSchema_from_members[OF mem]
    by (simp add: parseSchema_additionalProperties_def)
next
  assume single
  from parseSchema_members_Inr[OF mem] obtain asts1 s1 asts2 s2 asts3 where
    sp: "single = singlePatternProperty (deref (schemas s1) r)"
    and pp: "parseSchema_patternProperties rec r name single s1 = Some (Inr (asts2, s2))"
    and ms: "members = asts1 @ asts2 @ asts3"
    by blast
  from single_pattern_member[of s1 r rec name asts2 s2] sp pp \<open>single\<close>
  obtain a where "asts2 = [\<lparr> ip_ast = Obj a, isPatternProperty = False, isRequired = True,
                    isUnreachableDefinition = False, ip_keyName = ''[k: string]'' \<rparr>]"
    by auto
  then show "\<exists>m \<in> set members. ip_keyName m = ''[k: string]'' \<and> isRequired m \<and> \<not> isPatternProperty m"
    using ms by simp
next
  show "any_additional_member = \<lparr> ip_ast = T_ANY_ADDITIONAL_PROPERTIES,
            isPatternProperty = False, isRequired = True, isUnreachableDefinition = False,
            ip_keyName = ''[k: string]'' \<rparr>"
    by (simp add: any_additional_member_def)
qed

lemma additionalProperties_switch_closed_record:
  "\<exists>members s3. parseSchema (parse_fuel spec_env 10) 0 None
      (initial_state
        [empty_schema\<lparr>type := Some (TName ''object''), required := Some (RList []),
                       properties := Some [(''a'', Ref 1)],
                       additionalProperties := Some (Prim (JBool False))\<rparr>,
         empty_schema\<lparr>type := Some (TName ''string'')\<rparr>]
        (\<lambda>_. None))
    = Some (Inr (members, s3))
    \<and> map ip_keyName members = [''a''] \<and> map isRequired members = [False]"
proof -
  let ?h = "[empty_schema\<lparr>type := Some (TName ''object''), required := Some (RList []),
                       properties := Some [(''a'', Ref 1)],
                       additionalProperties := Some (Prim (JBool False))\<rparr>,
         empty_schema\<lparr>type := Some (TName ''string'')\<rparr>]"
  let ?s = "initial_state ?h (\<lambda>_. None)"
  let ?rec = "parse_fuel spec_env 10"
  have "(case parseSchema_members ?rec 0 None ?s of
           Some (Inr ((members, single), s3)) \<Rightarrow>
             map ip_keyName members = [''a''] \<and> map isRequired members = [False] \<and> schemas s3 = ?h
         | _ \<Rightarrow> False)"
    by code_simp
  then obtain members single s3 where
    mem: "parseSchema_members ?rec 0 None ?s = Some (Inr ((members, single), s3))"
    and keys: "map ip_keyName members = [''a'']" "map isRequired members = [False]"
    and h3: "schemas s3 = ?h"
    by (auto split: option.splits sum.splits prod.splits)
  have ap: "additionalProperties (deref (schemas s3) 0) = Some (Prim (JBool False))"
    by (simp add: h3 deref_def empty_schema_def)
  from additionalProperties_switch[OF mem] ap
  have "parseSchema ?rec 0 None ?s = Some (Inr (members, s3))" by blast
  with keys show ?thesis by (intro exI[of _ members] exI[of _ s3]) simp
qed

text \<open>
  Claim C6 says that \<^verbatim>\<open>additionalProperties: false\<close> yields a closed record, with no
  catch-all member. The pattern-properties step computes its flag as
  \<^verbatim>\<open>!schema.additionalProperties && Object.keys(schema.patternProperties).length === 1\<close>,
  which holds for \<^verbatim>\<open>false\<close> as it does for an absent key, although the comment above
  it keeps the special case for \<^verbatim>\<open>additionalProperties\<close> not set. So the record
  \<^verbatim>\<open>{patternProperties: {"^x": {type: "string"}}, additionalProperties: false}\<close> is
  built with one member, the catch-all \<open>[k: string]\<close>, required, and the \<^verbatim>\<open>switch\<close>
  (its \<^verbatim>\<open>case false\<close>) leaves it there.
\<close>

theorem additionalProperties_false_keeps_catch_all:
  "(case parseSchema (parse_fuel spec_env 10) 0 None
      (initial_state
        [empty_schema\<lparr>patternProperties := Some [(''^x'', Ref 1)],
                       additionalProperties := Some (Prim (JBool False))\<rparr>,
         empty_schema\<lparr>type := Some (TName ''string'')\<rparr>]
        (\<lambda>_. None)) of
     Some (Inr (ms, s')) \<Rightarrow>
       additionalProperties (deref (schemas s') 0) = Some (Prim (JBool False))
       \<and> map ip_keyName ms = [''[k: string]''] \<and> map isRequired ms = [True]
   | _ \<Rightarrow> False)"
  by code_simp

text \<open>
  Claim C9. The properties step has returned; the record then has exactly one pattern
  property and its \<^verbatim>\<open>additionalProperties\<close> is absent or \<^verbatim>\<open>false\<close>; the pattern's
  schema parses to the node \<open>a\<close>; the definitions step has returned, and
  \<^verbatim>\<open>additionalProperties\<close> is absent or \<^verbatim>\<open>false\<close> then too. Then \<^verbatim>\<open>parseSchema\<close>
  returns the property members, one member for the pattern property with the key
  \<open>[k: string]\<close>, required and not flagged as a pattern property, and the members of the
  definitions: the \<^verbatim>\<open>switch\<close> on \<^verbatim>\<open>additionalProperties\<close> adds nothing, for
  \<^verbatim>\<open>false\<close> as for an absent key.
\<close>

theorem single_pattern_property_catch_all:
  assumes props: "parseSchema_properties rec r s = Some (Inr (asts1, s1))"
      and one: "patternProperties (deref (schemas s1) r) = Some [(pat, sub)]"
      and falsy1: "additionalProperties (deref (schemas s1) r) = None
                 \<or> additionalProperties (deref (schemas s1) r) = Some (Prim (JBool False))"
      and member: "rec sub (Some pat) s1 = Some (Inr (a, s2))"
      and defs: "parseSchema_defs rec r name (add_comment a (patternProperty_comment name pat) s2)
                   = Some (Inr (asts3, s3))"
      and falsy3: "additionalProperties (deref (schemas s3) r) = None
                 \<or> additionalProperties (deref (schemas s3) r) = Some (Prim (JBool False))"
  shows "parseSchema rec r name s
           = Some (Inr (asts1 @ [\<lparr> ip_ast = Obj a, isPatternProperty = False, isRequired = True,
                           isUnreachableDefinition = False, ip_keyName = ''[k: string]'' \<rparr>] @ asts3, s3))
       \<and> map ip_keyName asts1 = map fst (opt_list (properties (deref (schemas s) r)))
       \<and> (\<forall>m \<in> set asts1. \<not> isPatternProperty m \<and> \<not> isUnreachableDefinition m)
       \<and> (\<forall>m \<in> set asts3. \<not> isPatternProperty m \<and> isUnreachableDefinition m)"
proof -
  have sp: "singlePatternProperty (deref (schemas s1) r)"
    using one falsy1 by (auto simp: singlePatternProperty_def)
  have pats: "parseSchema_patternProperties rec r name True s1
      = Some (Inr ([\<lparr> ip_ast = Obj a, isPatternProperty = False, isRequired = True,
                           isUnreachableDefinition = False, ip_keyName = ''[k: string]'' \<rparr>],
                   add_comment a (patternProperty_comment name pat) s2))"
    by (simp add: parseSchema_patternProperties_def one opt_list_def member bind_res_def
        return_res_def)
  have mem: "parseSchema_members rec r name s
     = Some (Inr ((asts1 @ [\<lparr> ip_ast = Obj a, isPatternProperty = False, isRequired = True,
                           isUnreachableDefinition = False, ip_keyName = ''[k: string]'' \<rparr>] @ asts3,
                   True), s3))"
    using parseSchema_members_intro[OF props _ defs] pats sp by simp
  have "parseSchema rec r name s
           = Some (Inr (asts1 @ [\<lparr> ip_ast = Obj a, isPatternProperty = False, isRequired = True,
                           isUnreachableDefinition = False, ip_keyName = ''[k: string]'' \<rparr>] @ asts3, s3))"
    unfolding parseSchema_from_members[OF mem]
    using falsy3 by (auto simp: parseSchema_additionalProperties_def return_res_def)
  then show ?thesis
    using properties_members[OF props] defs_members[OF defs] by simp
qed

theorem single_pattern_property_catch_all_witness:
  "\<exists>s3. parseSchema (parse_fuel spec_env 10) 0 None
      (initial_state
        [empty_schema\<lparr>patternProperties := Some [(''^x'', Ref 1)],
                       additionalProperties := Some (Prim (JBool False))\<rparr>,
         empty_schema\<lparr>type := Some (TName ''string'')\<rparr>]
        (\<lambda>_. None))
    = Some (Inr ([\<lparr> ip_ast = Obj 0, isPatternProperty = False, isRequired = True,
                     isUnreachableDefinition = False, ip_keyName = ''[k: string]'' \<rparr>], s3))"
proof -
  let ?h = "[empty_schema\<lparr>patternProperties := Some [(''^x'', Ref 1)],
                       additionalProperties := Some (Prim (JBool False))\<rparr>,
         empty_schema\<lparr>type := Some (TName ''string'')\<rparr>]"
  let ?s = "initial_state ?h (\<lambda>_. None)"
  let ?rec = "parse_fuel spec_env 10"
  have sch: "deref (schemas ?s) 0 = empty_schema\<lparr>patternProperties := Some [(''^x'', Ref 1)],
                       additionalProperties := Some (Prim (JBool False))\<rparr>"
    by (simp add: initial_state_def deref_def)
  have props: "parseSchema_properties ?rec 0 ?s = Some (Inr ([], ?s))"
    unfolding parseSchema_properties_def sch
    by (simp add: empty_schema_def opt_list_def return_res_def)
  have one: "patternProperties (deref (schemas ?s) 0) = Some [(''^x'', Ref 1)]"
    unfolding sch by (simp add: empty_schema_def)
  have falsy1: "additionalProperties (deref (schemas ?s) 0) = None
                 \<or> additionalProperties (deref (schemas ?s) 0) = Some (Prim (JBool False))"
    unfolding sch by (simp add: empty_schema_def)
  have "(case ?rec (Ref 1) (Some ''^x'') ?s of
           Some (Inr (a, s2)) \<Rightarrow> a = 0 \<and> schemas s2 = ?h | _ \<Rightarrow> False)"
    by code_simp
  then obtain s2 where member: "?rec (Ref 1) (Some ''^x'') ?s = Some (Inr (0, s2))"
    and h2: "schemas s2 = ?h"
    by (auto split: option.splits sum.splits)
  let ?s3 = "add_comment 0 (patternProperty_comment None ''^x'') s2"
  have sch3: "deref (schemas ?s3) 0 = empty_schema\<lparr>patternProperties := Some [(''^x'', Ref 1)],
                       additionalProperties := Some (Prim (JBool False))\<rparr>"
    by (simp add: add_comment_def h2 deref_def)
  have defs: "parseSchema_defs ?rec 0 None ?s3 = Some (Inr ([], ?s3))"
    unfolding parseSchema_defs_def sch3
    by (simp add: empty_schema_def opt_list_def return_res_def)
  have falsy3: "additionalProperties (deref (schemas ?s3) 0) = None
                 \<or> additionalProperties (deref (schemas ?s3) 0) = Some (Prim (JBool False))"
    unfolding sch3 by (simp add: empty_schema_def)
  from single_pattern_property_catch_all[OF props one falsy1 member defs falsy3]
  show ?thesis by auto
qed


end
